theory Spec2Isabelle
  imports Main "HOL-Library.Multiset" "HOL-Library.Sublist" "HOL-Library.Product_Lexorder"
begin

section \<open>Data model\<close>

text \<open>
  The three servers (\<^verbatim>\<open>server.js\<close> on SQLite, \<^verbatim>\<open>server_mongo.js\<close> on MongoDB,
  \<^verbatim>\<open>server_supabase.js\<close> on Supabase) keep the same three tables: \<^verbatim>\<open>users\<close>, \<^verbatim>\<open>scores\<close>
  and \<^verbatim>\<open>messages\<close>. A table is the list of its rows in insertion order: the position of a
  row is its \<^verbatim>\<open>id INTEGER PRIMARY KEY AUTOINCREMENT\<close> (SQLite), its \<^verbatim>\<open>_id\<close> (MongoDB) or
  its \<^verbatim>\<open>created_at\<close> (Supabase). Scores and messages are only ever inserted; the login
  replaces the row of its user. A score is a JavaScript number with an integer value (or
  an infinity, see below), kept as the integer it equals.
  The columns \<^verbatim>\<open>twitterId\<close> and \<^verbatim>\<open>score\<close> of \<^verbatim>\<open>scores\<close> are \<open>score_twitterId\<close> and
  \<open>score\<close>, the columns \<^verbatim>\<open>user\<close> and \<^verbatim>\<open>text\<close> of \<^verbatim>\<open>messages\<close> are \<open>msg_user\<close> and
  \<open>msg_text\<close>; Supabase spells the columns \<^verbatim>\<open>twitter_id\<close>, \<^verbatim>\<open>photo_url\<close>,
  \<^verbatim>\<open>profile_url\<close> and \<^verbatim>\<open>user_name\<close>.
\<close>

record user_row =
  twitterId :: string
  username :: string
  displayName :: string
  photoUrl :: string
  profileUrl :: string

record score_row =
  score_twitterId :: string
  score :: int

record message_row =
  msg_user :: string
  msg_text :: string

record database =
  users :: "user_row list"
  scores :: "score_row list"
  messages :: "message_row list"

text \<open>A row of the leaderboard as the handlers send it: the columns
  \<^verbatim>\<open>username, photoUrl, profileUrl, highScore\<close>.\<close>

record leaderboard_row =
  lb_username :: string
  lb_photoUrl :: string
  lb_profileUrl :: string
  highScore :: int

text \<open>A document of the leaderboard of \<^verbatim>\<open>server_mongo.js\<close>: its \<^verbatim>\<open>$project\<close> names
  \<^verbatim>\<open>username, photoUrl, profileUrl, highScore\<close> and does not exclude \<^verbatim>\<open>_id\<close>, which
  \<^verbatim>\<open>$group\<close> has set to the \<^verbatim>\<open>twitterId\<close>; the documents carry it as a fifth field.\<close>

record mongo_leaderboard_row = leaderboard_row +
  mongo_id :: string

section \<open>The storage engines' queries\<close>

text \<open>
  \<^verbatim>\<open>JOIN users u ON s.twitterId = u.twitterId\<close>, MongoDB's \<^verbatim>\<open>$lookup\<close> with
  \<^verbatim>\<open>$unwind\<close> and Supabase's embedded \<^verbatim>\<open>users (...)\<close> all look the user of a score up by
  its key. \<^verbatim>\<open>twitterId\<close> is the primary key of \<^verbatim>\<open>users\<close> (the login upserts on it), so
  at most one row matches.
\<close>

definition lookup_user :: "user_row list \<Rightarrow> string \<Rightarrow> user_row option" where
  "lookup_user us k = find (\<lambda>u. twitterId u = k) us"

text \<open>
  \<^verbatim>\<open>ORDER BY key DESC\<close>: the rows sorted by descending key. The order among rows of equal
  key is the engine's choice, which neither SQL nor MongoDB fixes; \<open>tie\<close> is the order in
  which the engine meets the rows (any rearrangement of them), and the sort keeps that
  order among equal keys.
\<close>

definition order_by_desc :: "('a list \<Rightarrow> 'a list) \<Rightarrow> ('a \<Rightarrow> int) \<Rightarrow> 'a list \<Rightarrow> 'a list" where
  "order_by_desc tie key rows = sort_key (\<lambda>r. - key r) (tie rows)"

definition rearranges :: "('a list \<Rightarrow> 'a list) \<Rightarrow> bool" where
  "rearranges tie = (\<forall>rows. mset (tie rows) = mset rows)"

text \<open>
  \<^verbatim>\<open>SELECT ..., MAX(s.score) as highScore FROM scores s JOIN users u ON s.twitterId =
  u.twitterId GROUP BY u.twitterId\<close>: one row for every \<^verbatim>\<open>twitterId\<close> that has a score and a
  user, holding that user and the greatest of its scores.
\<close>

definition scores_of :: "string \<Rightarrow> score_row list \<Rightarrow> int list" where
  "scores_of k ss = map score (filter (\<lambda>s. score_twitterId s = k) ss)"

definition group_by_twitterId :: "database \<Rightarrow> (user_row \<times> int) list" where
  "group_by_twitterId db =
     concat (map (\<lambda>k. case lookup_user (users db) k of
                         None \<Rightarrow> []
                       | Some u \<Rightarrow> [(u, Max (set (scores_of k (scores db))))])
                 (remdups (map score_twitterId (scores db))))"

definition ranked :: "((user_row \<times> int) list \<Rightarrow> (user_row \<times> int) list) \<Rightarrow> database \<Rightarrow> (user_row \<times> int) list" where
  "ranked tie db = order_by_desc tie snd (group_by_twitterId db)"

definition to_leaderboard_row :: "user_row \<times> int \<Rightarrow> leaderboard_row" where
  "to_leaderboard_row r =
     \<lparr>lb_username = username (fst r), lb_photoUrl = photoUrl (fst r),
      lb_profileUrl = profileUrl (fst r), highScore = snd r\<rparr>"


section \<open>JavaScript numbers\<close>

text \<open>
  \<^verbatim>\<open>express.json()\<close> parses the body with \<^verbatim>\<open>JSON.parse\<close>, which reads a number as an IEEE
  754 double: an integer below \<open>2\<^sup>5\<^sup>3 = 9007199254740992\<close> in magnitude is itself, a
  greater one is rounded to 53 significant bits, to the nearest and to the even
  significand on a tie, and what rounds to \<open>2\<^sup>1\<^sup>0\<^sup>2\<^sup>4\<close> or beyond is \<^verbatim>\<open>Infinity\<close>. A double
  with an integer value is modelled by that integer and the two infinities by
  \<open>2\<^sup>1\<^sup>0\<^sup>2\<^sup>4\<close> and \<open>- 2\<^sup>1\<^sup>0\<^sup>2\<^sup>4\<close>, which compare with the other doubles, and with
  \<^verbatim>\<open>===\<close>, as the infinities do. \<open>bit_length n\<close> is the number of binary digits of \<open>n\<close>.
\<close>

function bit_length :: "int \<Rightarrow> nat" where
  "bit_length n = (if n \<le> 0 then 0 else Suc (bit_length (n div 2)))"
  by pat_completeness auto

termination
  by (relation "measure nat") auto

declare bit_length.simps [simp del]

definition round_magnitude :: "int \<Rightarrow> int" where
  "round_magnitude n =
     (if n < 9007199254740992 then n
      else (let q = 2 ^ (bit_length n - 53); m = n div q; r = n mod q
            in if q < 2 * r \<or> (2 * r = q \<and> odd m) then (m + 1) * q else m * q))"

definition infinity :: int where
  "infinity = 2 ^ 1024"

definition to_double :: "int \<Rightarrow> int" where
  "to_double i =
     (let v = round_magnitude \<bar>i\<bar>;
          w = (if infinity \<le> v then infinity else v)
      in if i < 0 then - w else w)"


section \<open>Requests, responses and effects\<close>

text \<open>
  \<^verbatim>\<open>req.user\<close> is the user object the login stored in the session (the same fields as a
  row of \<^verbatim>\<open>users\<close>); \<^verbatim>\<open>req.isAuthenticated()\<close> holds when the session has one.
  \<open>json_score\<close> is the integer the client wrote as the \<^verbatim>\<open>score\<close> of the JSON body, and
  \<^verbatim>\<open>req.body.score\<close> is the double it was parsed to.
\<close>

record request =
  session_user :: "user_row option"
  json_score :: int

definition body_score :: "request \<Rightarrow> int" where
  "body_score req = to_double (json_score req)"

definition isAuthenticated :: "request \<Rightarrow> bool" where
  "isAuthenticated req = (session_user req \<noteq> None)"

text \<open>
  The JSON a handler answers with: the leaderboard rows (the documents with their
  \<^verbatim>\<open>_id\<close> in \<^verbatim>\<open>server_mongo.js\<close>), \<^verbatim>\<open>{ success: true }\<close> (with \<^verbatim>\<open>id: this.lastID\<close> in
  \<^verbatim>\<open>server.js\<close>), or \<^verbatim>\<open>res.status(n).json({ error: message })\<close>.
\<close>

datatype response =
    Json_rows "leaderboard_row list"
  | Json_docs "mongo_leaderboard_row list"
  | Json_success "nat option"
  | Json_error nat string

text \<open>
  A storage call may fail. Which calls of a submission fail is an input of the model:
  \<open>Some message\<close> is the error the engine reports (\<^verbatim>\<open>err.message\<close>), \<open>None\<close> is
  success.
\<close>

record faults =
  insert_score_error :: "string option"
  top3_error :: "string option"
  insert_message_error :: "string option"

definition no_faults :: faults where
  "no_faults = \<lparr>insert_score_error = None, top3_error = None, insert_message_error = None\<rparr>"

text \<open>
  What a submission does: the response to the submitter, the database afterwards, and the
  payloads of \<^verbatim>\<open>io.emit('chat message', ...)\<close> in the order of the calls.
\<close>

record outcome =
  response_of :: response
  db_of :: database
  emitted :: "message_row list"

section \<open>The announcement\<close>

text \<open>
  \<^verbatim>\<open>`${rank}`\<close> and \<^verbatim>\<open>`${score}`\<close> print a double as \<^verbatim>\<open>Number.prototype.toString\<close> does.
  Of the decimal numbers that \<^verbatim>\<open>JSON.parse\<close> would read as the same double it takes one
  with the fewest significant digits, and of these the nearest (the one with the even last
  digit on a tie); \<open>shortest_from x d k\<close> looks for it among the numbers of \<open>k\<close> and more
  significant digits, \<open>d\<close> being the number of decimal digits of \<open>x\<close>. A number of at most
  21 digits is printed in full (below \<open>2\<^sup>5\<^sup>3\<close> these are the decimal digits of the integer
  itself), a longer one as \<^verbatim>\<open>d.ddde+n\<close>, and the infinities as \<^verbatim>\<open>Infinity\<close> and
  \<^verbatim>\<open>-Infinity\<close>. The crown before the \<^verbatim>\<open>@\<close> is U+1F451, four bytes in UTF-8.
\<close>

function digits :: "int \<Rightarrow> string" where
  "digits n = (if n < 10 then [''0123456789'' ! nat n]
               else digits (n div 10) @ [''0123456789'' ! nat (n mod 10)])"
  by pat_completeness auto

termination
  by (relation "measure nat") auto

declare digits.simps [simp del]

function shortest_from :: "int \<Rightarrow> nat \<Rightarrow> nat \<Rightarrow> int" where
  "shortest_from x d k =
     (if d \<le> k then x
      else (let p = 10 ^ (d - k); lo = (x div p) * p; hi = lo + p;
                lo_ok = (round_magnitude lo = x); hi_ok = (round_magnitude hi = x)
            in if lo_ok \<and> hi_ok
               then (if x - lo < hi - x then lo else if hi - x < x - lo then hi
                     else if even (lo div p) then lo else hi)
               else if lo_ok then lo else if hi_ok then hi
               else shortest_from x d (Suc k)))"
  by pat_completeness auto

termination
  by (relation "measure (\<lambda>(x, d, k). d - k)") auto

declare shortest_from.simps [simp del]

definition exponent_text :: "int \<Rightarrow> string" where
  "exponent_text v =
     (case rev (dropWhile (\<lambda>c. c = CHR ''0'') (rev (digits v))) of
        [] \<Rightarrow> []
      | c # cs \<Rightarrow> c # (if cs = [] then [] else CHR ''.'' # cs) @ ''e+''
                   @ digits (int (length (digits v)) - 1))"

definition unsigned_text :: "int \<Rightarrow> string" where
  "unsigned_text n =
     (if n < 9007199254740992 then digits n
      else (let v = shortest_from n (length (digits n)) 1
            in if length (digits v) \<le> 21 then digits v else exponent_text v))"

definition number_text :: "int \<Rightarrow> string" where
  "number_text x =
     (if x = infinity then ''Infinity''
      else if x = - infinity then ''-Infinity''
      else if x < 0 then CHR ''-'' # unsigned_text (- x)
      else unsigned_text x)"

definition crown :: string where
  "crown = [CHR 0xF0, CHR 0x9F, CHR 0x91, CHR 0x91]"

definition announcement_text :: "string \<Rightarrow> int \<Rightarrow> int \<Rightarrow> string" where
  "announcement_text name rank sc =
     crown @ '' @'' @ name @ '' just took #'' @ number_text rank @ '' place with ''
       @ number_text sc @ '' points!''"

definition system_message :: "string \<Rightarrow> message_row" where
  "system_message txt = \<lparr>msg_user = ''SYSTEM'', msg_text = txt\<rparr>"

section \<open>The placement check\<close>

text \<open>
  The three servers run the same lines on the rows of the top-3 query, each row a
  \<^verbatim>\<open>username\<close> and a \<^verbatim>\<open>highScore\<close>:
  \<^verbatim>\<open>
  const rank = rows.findIndex(r => r.username === req.user.username) + 1;
  const userRecord = rows.find(r => r.username === req.user.username);
  if (rank > 0 && rank <= 3 && userRecord && userRecord.highScore === score) { ... }
  \<close>
  \<^verbatim>\<open>findIndex\<close> answers -1 when no row matches.
\<close>

fun findIndex_from :: "('a \<Rightarrow> bool) \<Rightarrow> 'a list \<Rightarrow> int \<Rightarrow> int" where
  "findIndex_from P [] i = - 1"
| "findIndex_from P (x # xs) i = (if P x then i else findIndex_from P xs (i + 1))"

definition findIndex :: "('a \<Rightarrow> bool) \<Rightarrow> 'a list \<Rightarrow> int" where
  "findIndex P xs = findIndex_from P xs 0"

definition placement :: "string \<Rightarrow> int \<Rightarrow> (string \<times> int) list \<Rightarrow> string option" where
  "placement name sc rows =
     (let rank = findIndex (\<lambda>r. fst r = name) rows + 1;
          userRecord = find (\<lambda>r. fst r = name) rows
      in if rank > 0 \<and> rank \<le> 3 \<and> (case userRecord of None \<Rightarrow> False | Some r \<Rightarrow> snd r = sc)
         then Some (announcement_text name rank sc)
         else None)"

definition insert_score :: "user_row \<Rightarrow> int \<Rightarrow> database \<Rightarrow> database" where
  "insert_score u sc db =
     db\<lparr>scores := scores db @ [\<lparr>score_twitterId = twitterId u, score = sc\<rparr>]\<rparr>"

definition insert_message :: "message_row \<Rightarrow> database \<Rightarrow> database" where
  "insert_message m db = db\<lparr>messages := messages db @ [m]\<rparr>"

definition name_and_score :: "user_row \<times> int \<Rightarrow> string \<times> int" where
  "name_and_score r = (username (fst r), snd r)"

text \<open>
  The top-3 query of \<^verbatim>\<open>server.js\<close> (\<^verbatim>\<open>checkQuery\<close>: \<^verbatim>\<open>SELECT u.username, MAX(s.score) as
  highScore ... GROUP BY u.twitterId ORDER BY highScore DESC LIMIT 3\<close>) and of
  \<^verbatim>\<open>server_mongo.js\<close> (the same aggregation with \<^verbatim>\<open>$limit: 3\<close>, read through
  \<^verbatim>\<open>r.u.username\<close> and \<^verbatim>\<open>r.highScore\<close>).
\<close>

definition checkQuery ::
  "((user_row \<times> int) list \<Rightarrow> (user_row \<times> int) list) \<Rightarrow> database \<Rightarrow> (string \<times> int) list" where
  "checkQuery tie db = map name_and_score (take 3 (ranked tie db))"


section \<open>\<^verbatim>\<open>server.js\<close>: the SQLite server\<close>

text \<open>
  \<^verbatim>\<open>GET /api/leaderboard\<close>: the grouped rows \<^verbatim>\<open>ORDER BY highScore DESC LIMIT 20\<close>, or
  status 500 when the query fails.
\<close>

definition get_leaderboard_sqlite ::
  "((user_row \<times> int) list \<Rightarrow> (user_row \<times> int) list) \<Rightarrow> string option \<Rightarrow> database \<Rightarrow> response" where
  "get_leaderboard_sqlite tie err db =
     (case err of
        Some e \<Rightarrow> Json_error 500 e
      | None \<Rightarrow> Json_rows (map to_leaderboard_row (take 20 (ranked tie db))))"

text \<open>
  \<^verbatim>\<open>POST /api/score\<close>. The response is sent from the callback of the insert, before the
  top-3 query answers; the callback of that query does nothing when the query failed
  (\<^verbatim>\<open>if (!err && rows)\<close>). The insert of the system message has no callback: its error
  is not looked at, and \<^verbatim>\<open>io.emit\<close> follows it at once. \<^verbatim>\<open>this.lastID\<close> is the id of the
  inserted score, the number of rows of \<^verbatim>\<open>scores\<close>.
\<close>

definition post_score_sqlite ::
  "((user_row \<times> int) list \<Rightarrow> (user_row \<times> int) list) \<Rightarrow> faults \<Rightarrow> request \<Rightarrow> database \<Rightarrow> outcome" where
  "post_score_sqlite tie fl req db =
     (case session_user req of
        None \<Rightarrow> \<lparr>response_of = Json_error 401 ''Not authenticated'', db_of = db, emitted = []\<rparr>
      | Some user \<Rightarrow>
         (case insert_score_error fl of
            Some e \<Rightarrow> \<lparr>response_of = Json_error 500 e, db_of = db, emitted = []\<rparr>
          | None \<Rightarrow>
             (let sc = body_score req;
                  db1 = insert_score user sc db;
                  res = Json_success (Some (length (scores db1)))
              in case top3_error fl of
                   Some e \<Rightarrow> \<lparr>response_of = res, db_of = db1, emitted = []\<rparr>
                 | None \<Rightarrow>
                    (case placement (username user) sc (checkQuery tie db1) of
                       None \<Rightarrow> \<lparr>response_of = res, db_of = db1, emitted = []\<rparr>
                     | Some announcement \<Rightarrow>
                        \<lparr>response_of = res,
                         db_of = (case insert_message_error fl of
                                    None \<Rightarrow> insert_message (system_message announcement) db1
                                  | Some e \<Rightarrow> db1),
                         emitted = [system_message announcement]\<rparr>))))"

text \<open>
  \<^verbatim>\<open>io.on('connection')\<close>: \<^verbatim>\<open>SELECT user, text FROM messages ORDER BY id DESC LIMIT 50\<close>,
  then \<^verbatim>\<open>rows.reverse().forEach\<close> emits each row to the socket. Nothing is sent when the
  query fails.
\<close>

definition recent_messages :: "database \<Rightarrow> message_row list" where
  "recent_messages db = take 50 (rev (messages db))"

definition on_connection_sqlite :: "string option \<Rightarrow> database \<Rightarrow> message_row list" where
  "on_connection_sqlite err db =
     (case err of Some e \<Rightarrow> [] | None \<Rightarrow> rev (recent_messages db))"

section \<open>\<^verbatim>\<open>server_mongo.js\<close>: the MongoDB server\<close>


definition post_score_mongo ::
  "((user_row \<times> int) list \<Rightarrow> (user_row \<times> int) list) \<Rightarrow> faults \<Rightarrow> request \<Rightarrow> database \<Rightarrow> outcome" where
  "post_score_mongo tie fl req db =
     (case session_user req of
        None \<Rightarrow> \<lparr>response_of = Json_error 401 ''Not authenticated'', db_of = db, emitted = []\<rparr>
      | Some user \<Rightarrow>
         (case insert_score_error fl of
            Some e \<Rightarrow> \<lparr>response_of = Json_error 500 e, db_of = db, emitted = []\<rparr>
          | None \<Rightarrow>
             (let sc = body_score req;
                  db1 = insert_score user sc db
              in case top3_error fl of
                   Some e \<Rightarrow> \<lparr>response_of = Json_error 500 e, db_of = db1, emitted = []\<rparr>
                 | None \<Rightarrow>
                    (case placement (username user) sc (checkQuery tie db1) of
                       None \<Rightarrow> \<lparr>response_of = Json_success None, db_of = db1, emitted = []\<rparr>
                     | Some announcement \<Rightarrow>
                        (case insert_message_error fl of
                           Some e \<Rightarrow> \<lparr>response_of = Json_error 500 e, db_of = db1, emitted = []\<rparr>
                         | None \<Rightarrow>
                            \<lparr>response_of = Json_success None,
                             db_of = insert_message (system_message announcement) db1,
                             emitted = [system_message announcement]\<rparr>)))))"

text \<open>\<^verbatim>\<open>io.on('connection')\<close> replays only \<^verbatim>\<open>if(db)\<close>, that is once the client is connected
  to the database.\<close>

definition on_connection_mongo :: "bool \<Rightarrow> string option \<Rightarrow> database \<Rightarrow> message_row list" where
  "on_connection_mongo db_connected err db =
     (if db_connected
      then (case err of Some e \<Rightarrow> [] | None \<Rightarrow> rev (recent_messages db))
      else [])"

section \<open>\<^verbatim>\<open>server_supabase.js\<close>: the Supabase server\<close>

text \<open>
  \<^verbatim>\<open>supabase.from('scores').select(`score, users (...)`).order('score', { ascending:
  false })\<close>: every score with its user embedded (\<^verbatim>\<open>null\<close> when it has none), by
  descending score.
\<close>

definition select_scores_users ::
  "((int \<times> user_row option) list \<Rightarrow> (int \<times> user_row option) list) \<Rightarrow> database
     \<Rightarrow> (int \<times> user_row option) list" where
  "select_scores_users tie db =
     order_by_desc tie fst
       (map (\<lambda>s. (score s, lookup_user (users db) (score_twitterId s))) (scores db))"

text \<open>Reading \<^verbatim>\<open>entry.users.username\<close> of an entry without user, and iterating the
  \<^verbatim>\<open>null\<close> data of a failed query, throw a \<^verbatim>\<open>TypeError\<close>; the handler's \<^verbatim>\<open>catch\<close>
  answers its message with status 500.\<close>

definition null_property_message :: string where
  "null_property_message = ''Cannot read properties of null (reading 'username')''"

definition not_iterable_message :: string where
  "not_iterable_message = ''allScores is not iterable''"

text \<open>
  \<^verbatim>\<open>GET /api/leaderboard\<close>: \<^verbatim>\<open>data.forEach\<close> fills \<^verbatim>\<open>userMap\<close>, a \<^verbatim>\<open>Map\<close> from username
  to row, keeping the first entry of each username; a \<^verbatim>\<open>Map\<close> lists its values in the
  order of insertion.
\<close>

fun userMap_forEach ::
  "(int \<times> user_row option) list \<Rightarrow> (string \<times> leaderboard_row) list
     \<Rightarrow> string + (string \<times> leaderboard_row) list" where
  "userMap_forEach [] userMap = Inr userMap"
| "userMap_forEach ((sc, None) # rest) userMap = Inl null_property_message"
| "userMap_forEach ((sc, Some u) # rest) userMap =
     (if username u \<notin> fst ` set userMap
      then userMap_forEach rest
             (userMap @ [(username u,
                \<lparr>lb_username = username u, lb_photoUrl = photoUrl u,
                 lb_profileUrl = profileUrl u, highScore = sc\<rparr>)])
      else userMap_forEach rest userMap)"

definition get_leaderboard_supabase ::
  "((int \<times> user_row option) list \<Rightarrow> (int \<times> user_row option) list) \<Rightarrow> string option \<Rightarrow> database
     \<Rightarrow> response" where
  "get_leaderboard_supabase tie err db =
     (case err of
        Some e \<Rightarrow> Json_error 500 e
      | None \<Rightarrow>
         (case userMap_forEach (select_scores_users tie db) [] of
            Inl e \<Rightarrow> Json_error 500 e
          | Inr userMap \<Rightarrow> Json_rows (take 20 (map snd userMap))))"

text \<open>
  \<^verbatim>\<open>POST /api/score\<close>: the loop over \<^verbatim>\<open>allScores\<close> pushes the first entry of each username
  to \<^verbatim>\<open>uniqueScores\<close> and adds the username to the \<^verbatim>\<open>Set\<close> \<^verbatim>\<open>seen\<close>.
\<close>

fun unique_scores ::
  "(int \<times> user_row option) list \<Rightarrow> (string \<times> int) list \<Rightarrow> string set
     \<Rightarrow> string + (string \<times> int) list" where
  "unique_scores [] uniqueScores seen = Inr uniqueScores"
| "unique_scores ((sc, None) # rest) uniqueScores seen = Inl null_property_message"
| "unique_scores ((sc, Some u) # rest) uniqueScores seen =
     (if username u \<notin> seen
      then unique_scores rest (uniqueScores @ [(username u, sc)]) (insert (username u) seen)
      else unique_scores rest uniqueScores seen)"

text \<open>
  The error of the insert into \<^verbatim>\<open>scores\<close> is thrown. The error of the select is not
  read: a failed select leaves \<^verbatim>\<open>allScores\<close> \<^verbatim>\<open>null\<close> and the loop throws. The result of
  the insert into \<^verbatim>\<open>messages\<close> is not read at all, and \<^verbatim>\<open>io.emit\<close> follows it.
\<close>

definition post_score_supabase ::
  "((int \<times> user_row option) list \<Rightarrow> (int \<times> user_row option) list) \<Rightarrow> faults \<Rightarrow> request \<Rightarrow> database
     \<Rightarrow> outcome" where
  "post_score_supabase tie fl req db =
     (case session_user req of
        None \<Rightarrow> \<lparr>response_of = Json_error 401 ''Not authenticated'', db_of = db, emitted = []\<rparr>
      | Some user \<Rightarrow>
         (case insert_score_error fl of
            Some e \<Rightarrow> \<lparr>response_of = Json_error 500 e, db_of = db, emitted = []\<rparr>
          | None \<Rightarrow>
             (let sc = body_score req;
                  db1 = insert_score user sc db
              in case top3_error fl of
                   Some e \<Rightarrow>
                     \<lparr>response_of = Json_error 500 not_iterable_message, db_of = db1, emitted = []\<rparr>
                 | None \<Rightarrow>
                    (case unique_scores (select_scores_users tie db1) [] {} of
                       Inl e \<Rightarrow> \<lparr>response_of = Json_error 500 e, db_of = db1, emitted = []\<rparr>
                     | Inr uniqueScores \<Rightarrow>
                        (case placement (username user) sc (take 3 uniqueScores) of
                           None \<Rightarrow> \<lparr>response_of = Json_success None, db_of = db1, emitted = []\<rparr>
                         | Some announcement \<Rightarrow>
                            \<lparr>response_of = Json_success None,
                             db_of = (case insert_message_error fl of
                                        None \<Rightarrow> insert_message (system_message announcement) db1
                                      | Some e \<Rightarrow> db1),
                             emitted = [system_message announcement]\<rparr>)))))"


section \<open>Connections and live messages\<close>

text \<open>
  Node runs one handler at a time, and a handler gives way where it waits for the storage
  (\<^verbatim>\<open>await\<close>, or a callback handed to \<^verbatim>\<open>db.all\<close>). The steps between these points are
  the events of the model; a schedule is the list of events in the order they run.
  \<^item> \<open>Connect c\<close>: socket \<open>c\<close> connects. From now on \<^verbatim>\<open>io.emit\<close> reaches it, and its
    \<^verbatim>\<open>'connection'\<close> handler has sent the query for the last 50 messages.
  \<^item> \<open>History_read c\<close>: the storage answers that query from the messages it holds.
  \<^item> \<open>Replay c\<close>: the handler goes on with the rows:
    \<^verbatim>\<open>rows.reverse().forEach(row => socket.emit('chat message', ...))\<close>.
  \<^item> \<open>Insert m\<close>: the storage inserts a chat message (\<^verbatim>\<open>socket.on('chat message')\<close> or an
    announcement).
  \<^item> \<open>Emit m\<close>: \<^verbatim>\<open>io.emit('chat message', m)\<close>, to every connected socket.
\<close>

datatype event =
    Connect nat
  | History_read nat
  | Replay nat
  | Insert message_row
  | Emit message_row

record system_state =
  chat_log :: "message_row list"
  sockets :: "nat set"
  received :: "nat \<Rightarrow> message_row list"
  fetched :: "nat \<Rightarrow> message_row list option"

fun step :: "event \<Rightarrow> system_state \<Rightarrow> system_state" where
  "step (Connect c) s = s\<lparr>sockets := insert c (sockets s)\<rparr>"
| "step (History_read c) s = s\<lparr>fetched := (fetched s)(c \<mapsto> take 50 (rev (chat_log s)))\<rparr>"
| "step (Replay c) s =
     (case fetched s c of
        None \<Rightarrow> s
      | Some rows \<Rightarrow>
         s\<lparr>received := (received s)(c := received s c @ rev rows),
           fetched := (fetched s)(c := None)\<rparr>)"
| "step (Insert m) s = s\<lparr>chat_log := chat_log s @ [m]\<rparr>"
| "step (Emit m) s =
     s\<lparr>received := (\<lambda>c. if c \<in> sockets s then received s c @ [m] else received s c)\<rparr>"

definition run :: "event list \<Rightarrow> system_state \<Rightarrow> system_state" where
  "run es s = fold step es s"

definition initial_state :: "message_row list \<Rightarrow> system_state" where
  "initial_state msgs =
     \<lparr>chat_log = msgs, sockets = {}, received = (\<lambda>c. []), fetched = (\<lambda>c. None)\<rparr>"

text \<open>The events of a schedule that belong to the connection of socket \<open>c\<close>, the messages
  a schedule inserts, and the messages it emits.\<close>

fun of_socket :: "nat \<Rightarrow> event \<Rightarrow> bool" where
  "of_socket c (Connect d) = (c = d)"
| "of_socket c (History_read d) = (c = d)"
| "of_socket c (Replay d) = (c = d)"
| "of_socket c (Insert m) = False"
| "of_socket c (Emit m) = False"

fun inserted :: "event list \<Rightarrow> message_row list" where
  "inserted [] = []"
| "inserted (Insert m # es) = m # inserted es"
| "inserted (e # es) = inserted es"

fun emitted_live :: "event list \<Rightarrow> message_row list" where
  "emitted_live [] = []"
| "emitted_live (Emit m # es) = m # emitted_live es"
| "emitted_live (e # es) = emitted_live es"

section \<open>The words of the specification\<close>

text \<open>The 1-based position of the first element with a property, 0 when there is none.\<close>

fun position :: "('a \<Rightarrow> bool) \<Rightarrow> 'a list \<Rightarrow> nat" where
  "position P [] = 0"
| "position P (x # xs) =
     (if P x then 1 else (case position P xs of 0 \<Rightarrow> 0 | Suc n \<Rightarrow> Suc (Suc n)))"

text \<open>The best score of an identity: the greatest score the ledger holds under its
  \<^verbatim>\<open>twitterId\<close>, if it holds one.\<close>

definition best_score :: "string \<Rightarrow> database \<Rightarrow> int option" where
  "best_score k db =
     (if scores_of k (scores db) = [] then None else Some (Max (set (scores_of k (scores db)))))"

text \<open>The session is current when the directory holds the session's user under its
  \<^verbatim>\<open>twitterId\<close> with the session's username, and the username is the user's own when no
  other \<^verbatim>\<open>twitterId\<close> of the directory carries it.\<close>

definition session_current :: "user_row \<Rightarrow> database \<Rightarrow> bool" where
  "session_current user db =
     (case lookup_user (users db) (twitterId user) of
        None \<Rightarrow> False
      | Some u \<Rightarrow> username u = username user)"

definition username_own :: "user_row \<Rightarrow> database \<Rightarrow> bool" where
  "username_own user db =
     list_all (\<lambda>u. username u = username user \<longrightarrow> twitterId u = twitterId user) (users db)"

text \<open>The scores the ledger holds for a username: those of every \<^verbatim>\<open>twitterId\<close> whose user
  carries it. The best score under a username is the greatest of them.\<close>

definition scores_by_name :: "string \<Rightarrow> database \<Rightarrow> int list" where
  "scores_by_name n db =
     map score
       (filter (\<lambda>s. case lookup_user (users db) (score_twitterId s) of
                       None \<Rightarrow> False
                     | Some u \<Rightarrow> username u = n)
               (scores db))"

definition name_best :: "string \<Rightarrow> database \<Rightarrow> int option" where
  "name_best n db =
     (if scores_by_name n db = [] then None else Some (Max (set (scores_by_name n db))))"

text \<open>Every score has its user (the foreign key of \<^verbatim>\<open>scores\<close>).\<close>

definition scores_have_users :: "database \<Rightarrow> bool" where
  "scores_have_users db =
     list_all (\<lambda>s. lookup_user (users db) (score_twitterId s) \<noteq> None) (scores db)"

text \<open>The elements of a list whose name no earlier element and no name of \<open>seen\<close> has:
  what both loops of \<^verbatim>\<open>server_supabase.js\<close> keep.\<close>

fun first_by_name :: "('a \<Rightarrow> string) \<Rightarrow> 'a list \<Rightarrow> string set \<Rightarrow> 'a list" where
  "first_by_name name [] seen = []"
| "first_by_name name (x # xs) seen =
     (if name x \<notin> seen then x # first_by_name name xs (insert (name x) seen)
      else first_by_name name xs seen)"

text \<open>The rows of the Supabase select that have a user, as score and user.\<close>

fun with_users :: "(int \<times> user_row option) list \<Rightarrow> (int \<times> user_row) list" where
  "with_users [] = []"
| "with_users ((sc, None) # es) = with_users es"
| "with_users ((sc, Some u) # es) = (sc, u) # with_users es"

definition joined ::
  "((int \<times> user_row option) list \<Rightarrow> (int \<times> user_row option) list) \<Rightarrow> database
     \<Rightarrow> (int \<times> user_row) list" where
  "joined tie db = with_users (select_scores_users tie db)"

text \<open>What a submission emits for the result of the placement check.\<close>

definition announce :: "string option \<Rightarrow> message_row list" where
  "announce a = (case a of None \<Rightarrow> [] | Some txt \<Rightarrow> [system_message txt])"

text \<open>What both loops of \<^verbatim>\<open>server_supabase.js\<close> keep of the joined rows, as user and
  score.\<close>

definition firsts ::
  "((int \<times> user_row option) list \<Rightarrow> (int \<times> user_row option) list) \<Rightarrow> database
     \<Rightarrow> (user_row \<times> int) list" where
  "firsts tie db = map prod.swap (first_by_name (\<lambda>e. username (snd e)) (joined tie db) {})"

section \<open>Example data\<close>

text \<open>Two users, a ledger and a chat log, for the concrete instances of the theorems.\<close>

definition alice :: user_row where
  "alice = \<lparr>twitterId = ''1001'', username = ''alice'', displayName = ''Alice'',
     photoUrl = ''a.png'', profileUrl = ''https://twitter.com/alice''\<rparr>"

definition bob :: user_row where
  "bob = \<lparr>twitterId = ''1002'', username = ''bob'', displayName = ''Bob'',
     photoUrl = ''b.png'', profileUrl = ''https://twitter.com/bob''\<rparr>"

definition three_messages :: "message_row list" where
  "three_messages =
     [\<lparr>msg_user = ''alice'', msg_text = ''one''\<rparr>,
      \<lparr>msg_user = ''bob'', msg_text = ''two''\<rparr>,
      \<lparr>msg_user = ''alice'', msg_text = ''three''\<rparr>]"

definition example_db :: database where
  "example_db =
     \<lparr>users = [alice, bob],
      scores = [\<lparr>score_twitterId = ''1001'', score = 10\<rparr>,
                \<lparr>score_twitterId = ''1001'', score = 50\<rparr>,
                \<lparr>score_twitterId = ''1002'', score = 60\<rparr>],
      messages = three_messages\<rparr>"

definition anonymous_request :: request where
  "anonymous_request = \<lparr>session_user = None, json_score = 70\<rparr>"

definition alice_submits_70 :: request where
  "alice_submits_70 = \<lparr>session_user = Some alice, json_score = 70\<rparr>"

definition top3_fails :: faults where
  "top3_fails = \<lparr>insert_score_error = None, top3_error = Some ''aggregate failed'',
     insert_message_error = None\<rparr>"

definition message_insert_fails :: faults where
  "message_insert_fails = \<lparr>insert_score_error = None, top3_error = None,
     insert_message_error = Some ''insert failed''\<rparr>"


definition alice_submits_20 :: request where
  "alice_submits_20 = \<lparr>session_user = Some alice, json_score = 20\<rparr>"

definition alice_submits_50 :: request where
  "alice_submits_50 = \<lparr>session_user = Some alice, json_score = 50\<rparr>"


definition carol :: user_row where
  "carol = \<lparr>twitterId = ''1003'', username = ''carol'', displayName = ''Carol'',
     photoUrl = ''c.png'', profileUrl = ''https://twitter.com/carol''\<rparr>"

definition dave :: user_row where
  "dave = \<lparr>twitterId = ''1004'', username = ''dave'', displayName = ''Dave'',
     photoUrl = ''d.png'', profileUrl = ''https://twitter.com/dave''\<rparr>"

definition bob_namesake :: user_row where
  "bob_namesake = \<lparr>twitterId = ''1005'', username = ''bob'', displayName = ''Robert'',
     photoUrl = ''r.png'', profileUrl = ''https://twitter.com/bob''\<rparr>"

definition namesake_db :: database where
  "namesake_db =
     \<lparr>users = [bob, bob_namesake, carol, dave],
      scores = [\<lparr>score_twitterId = ''1002'', score = 100\<rparr>,
                \<lparr>score_twitterId = ''1005'', score = 90\<rparr>,
                \<lparr>score_twitterId = ''1003'', score = 80\<rparr>,
                \<lparr>score_twitterId = ''1004'', score = 10\<rparr>],
      messages = []\<rparr>"



definition namesake_submits_90 :: request where
  "namesake_submits_90 = \<lparr>session_user = Some bob_namesake, json_score = 90\<rparr>"

text \<open>A user who has changed the username: the directory holds the new one, the session
  still carries the user object of the login, and another user has taken the old
  username.\<close>

definition renamed :: user_row where
  "renamed = \<lparr>twitterId = ''2001'', username = ''new'', displayName = ''Renamed'',
     photoUrl = ''n.png'', profileUrl = ''https://twitter.com/new''\<rparr>"

definition successor :: user_row where
  "successor = \<lparr>twitterId = ''2002'', username = ''old'', displayName = ''Successor'',
     photoUrl = ''o.png'', profileUrl = ''https://twitter.com/old''\<rparr>"

definition stale_session :: user_row where
  "stale_session = \<lparr>twitterId = ''2001'', username = ''old'', displayName = ''Renamed'',
     photoUrl = ''n.png'', profileUrl = ''https://twitter.com/old''\<rparr>"

definition renamed_db :: database where
  "renamed_db =
     \<lparr>users = [renamed, successor],
      scores = [\<lparr>score_twitterId = ''2001'', score = 100\<rparr>,
                \<lparr>score_twitterId = ''2002'', score = 20\<rparr>],
      messages = []\<rparr>"

definition stale_submits_20 :: request where
  "stale_submits_20 = \<lparr>session_user = Some stale_session, json_score = 20\<rparr>"

text \<open>A best score above \<open>2\<^sup>5\<^sup>3\<close>, and a submission one below it.\<close>

definition large_db :: database where
  "large_db =
     \<lparr>users = [alice],
      scores = [\<lparr>score_twitterId = ''1001'', score = 9007199254740996\<rparr>],
      messages = []\<rparr>"

definition alice_submits_large :: request where
  "alice_submits_large = \<lparr>session_user = Some alice, json_score = 9007199254740995\<rparr>"

definition old_message :: message_row where
  "old_message = \<lparr>msg_user = ''alice'', msg_text = ''old''\<rparr>"

definition new_message :: message_row where
  "new_message = \<lparr>msg_user = ''bob'', msg_text = ''new''\<rparr>"


section \<open>Theorems\<close>

subsection \<open>JavaScript numbers\<close>

text \<open>Below \<open>2\<^sup>5\<^sup>3\<close> in magnitude the submitted integer is the score, and its text is
  its decimal digits.\<close>

lemma infinity_big: "9007199254740992 < infinity"
  by (simp add: infinity_def)

lemma to_double_small: "\<bar>i\<bar> < 9007199254740992 \<Longrightarrow> to_double i = i"
proof -
  assume small: "\<bar>i\<bar> < 9007199254740992"
  then have "round_magnitude \<bar>i\<bar> = \<bar>i\<bar>"
    by (simp add: round_magnitude_def)
  moreover from small infinity_big have "\<not> infinity \<le> \<bar>i\<bar>"
    by linarith
  ultimately have "to_double i = (if i < 0 then - \<bar>i\<bar> else \<bar>i\<bar>)"
    by (simp only: to_double_def Let_def if_False)
  then show ?thesis
    by simp
qed

lemma body_score_small:
  "\<bar>json_score req\<bar> < 9007199254740992 \<Longrightarrow> body_score req = json_score req"
  by (simp add: body_score_def to_double_small)




lemma to_double_large: "to_double 9007199254740995 = 9007199254740996"
  by code_simp


subsection \<open>The ranking queries\<close>

lemma lookup_user_Some: "lookup_user us k = Some u \<Longrightarrow> twitterId u = k \<and> u \<in> set us"
  unfolding lookup_user_def by (auto simp: find_Some_iff)

lemma lookup_user_key: "lookup_user us k = Some u \<Longrightarrow> twitterId u = k"
  by (simp add: lookup_user_Some)

lemma scores_of_nonempty: "k \<in> score_twitterId ` set ss \<Longrightarrow> scores_of k ss \<noteq> []"
  by (auto simp: scores_of_def filter_empty_conv)

lemma set_scores_of: "set (scores_of k ss) = score ` {s \<in> set ss. score_twitterId s = k}"
  by (auto simp: scores_of_def)

lemma group_rows_iff:
  "(u, m) \<in> set (concat (map (\<lambda>k. case lookup_user us k of None \<Rightarrow> [] | Some u \<Rightarrow> [(u, f k)]) ks))
     \<longleftrightarrow> (\<exists>k \<in> set ks. lookup_user us k = Some u \<and> m = f k)"
  by (induction ks) (auto split: option.splits)

lemma group_by_twitterId_iff:
  "(u, m) \<in> set (group_by_twitterId db) \<longleftrightarrow>
     twitterId u \<in> score_twitterId ` set (scores db)
     \<and> lookup_user (users db) (twitterId u) = Some u
     \<and> m = Max (set (scores_of (twitterId u) (scores db)))"
  (is "?G \<longleftrightarrow> ?R")
proof -
  have G: "?G \<longleftrightarrow>
          (\<exists>k \<in> score_twitterId ` set (scores db). lookup_user (users db) k = Some u
              \<and> m = Max (set (scores_of k (scores db))))"
    (is "_ \<longleftrightarrow> ?L")
    unfolding group_by_twitterId_def group_rows_iff by simp
  have "?L \<longleftrightarrow> ?R"
  proof
    assume ?L
    then obtain k where k: "k \<in> score_twitterId ` set (scores db)"
        "lookup_user (users db) k = Some u" "m = Max (set (scores_of k (scores db)))"
      by blast
    from k(2) have "twitterId u = k" by (rule lookup_user_key)
    with k show ?R by simp
  next
    assume ?R
    then show ?L by blast
  qed
  with G show ?thesis by simp
qed



lemma mset_order_by_desc: "rearranges tie \<Longrightarrow> mset (order_by_desc tie key rows) = mset rows"
  by (simp add: order_by_desc_def rearranges_def)

lemma set_order_by_desc: "rearranges tie \<Longrightarrow> set (order_by_desc tie key rows) = set rows"
  by (metis mset_order_by_desc set_mset_mset)

lemma sorted_order_by_desc: "sorted_wrt (\<lambda>a b. key a \<ge> key b) (order_by_desc tie key rows)"
proof -
  have "sorted (map (\<lambda>r. - key r) (order_by_desc tie key rows))"
    by (simp add: order_by_desc_def)
  then show ?thesis
    by (simp add: sorted_wrt_map)
qed

lemma find_take: "find P (take n xs) = Some r \<Longrightarrow> find P xs = Some r"
  by (induction xs arbitrary: n) (auto simp: take_Cons' split: if_splits)

lemma find_sorted_greatest:
  "sorted_wrt (\<lambda>a b. key a \<ge> key b) xs \<Longrightarrow> find P xs = Some r \<Longrightarrow>
     r \<in> set xs \<and> P r \<and> (\<forall>r' \<in> set xs. P r' \<longrightarrow> key r' \<le> (key r :: int))"
  by (induction xs) (auto split: if_splits)

lemma best_score_Some:
  "best_score k db = Some m \<longleftrightarrow> k \<in> score_twitterId ` set (scores db) \<and> m = Max (set (scores_of k (scores db)))"
  by (auto simp: best_score_def scores_of_def filter_empty_conv)

lemma ranked_iff:
  assumes "rearranges tie"
  shows "(u, m) \<in> set (ranked tie db) \<longleftrightarrow>
           lookup_user (users db) (twitterId u) = Some u \<and> best_score (twitterId u) db = Some m"
  unfolding ranked_def set_order_by_desc [OF assms] group_by_twitterId_iff best_score_Some
  by blast


lemma sorted_ranked: "sorted_wrt (\<lambda>a b. snd a \<ge> snd b) (ranked tie db)"
  unfolding ranked_def by (rule sorted_order_by_desc)

lemma rearranges_id: "rearranges (\<lambda>rows. rows)"
  by (simp add: rearranges_def)

subsection \<open>The loops of the Supabase server\<close>

lemma first_by_name_names:
  "name ` set (first_by_name name xs seen) = name ` set xs - seen"
  by (induction xs arbitrary: seen) auto

lemma first_by_name_subset: "set (first_by_name name xs seen) \<subseteq> set xs"
  by (induction xs arbitrary: seen) auto



lemma first_by_name_greatest:
  "sorted_wrt (\<lambda>a b. key a \<ge> (key b :: int)) xs \<Longrightarrow> x \<in> set (first_by_name name xs seen) \<Longrightarrow>
     y \<in> set xs \<Longrightarrow> name y = name x \<Longrightarrow> key y \<le> key x"
proof (induction xs arbitrary: seen)
  case Nil
  then show ?case by simp
next
  case (Cons a xs)
  show ?case
  proof (cases "name a \<in> seen")
    case True
    with Cons.prems have x: "x \<in> set (first_by_name name xs seen)" by simp
    then have "name x \<in> name ` set xs - seen"
      using first_by_name_names [of name xs seen] by blast
    with True have "y \<noteq> a" using Cons.prems(4) by auto
    with Cons.prems have "y \<in> set xs" by simp
    with Cons.IH [OF _ x] Cons.prems show ?thesis by simp
  next
    case False
    with Cons.prems have x: "x = a \<or> x \<in> set (first_by_name name xs (insert (name a) seen))"
      by auto
    show ?thesis
    proof (cases "x = a")
      case True
      with Cons.prems show ?thesis by auto
    next
      case False
      with x have x': "x \<in> set (first_by_name name xs (insert (name a) seen))" by simp
      then have "name x \<in> name ` set xs - insert (name a) seen"
        using first_by_name_names [of name xs "insert (name a) seen"] by blast
      then have "name x \<noteq> name a" by auto
      with Cons.prems(4) have "y \<noteq> a" by auto
      with Cons.prems have "y \<in> set xs" by simp
      with Cons.IH [OF _ x'] Cons.prems show ?thesis by simp
    qed
  qed
qed

text \<open>Both loops of \<^verbatim>\<open>server_supabase.js\<close> keep the first entry of every username.\<close>

lemma unique_scores_eq:
  "unique_scores (map (\<lambda>e. (fst e, Some (snd e))) es) acc seen =
     Inr (acc @ map (\<lambda>e. (username (snd e), fst e)) (first_by_name (\<lambda>e. username (snd e)) es seen))"
  by (induction es arbitrary: acc seen) auto


lemma all_some_entries:
  "\<forall>e \<in> set es. snd e \<noteq> None \<Longrightarrow> es = map (\<lambda>e. (fst e, Some (snd e))) (with_users es)"
  by (induction es rule: with_users.induct) auto

lemma with_users_subset: "(sc, u) \<in> set (with_users es) \<Longrightarrow> (sc, Some u) \<in> set es"
  by (induction es rule: with_users.induct) auto

lemma sorted_with_users:
  "sorted_wrt (\<lambda>a b. fst a \<ge> fst b) es \<Longrightarrow> sorted_wrt (\<lambda>a b. fst a \<ge> fst b) (with_users es)"
  by (induction es rule: with_users.induct) (force dest: with_users_subset)+

lemma set_select_scores_users:
  "rearranges tie \<Longrightarrow>
     set (select_scores_users tie db) =
       (\<lambda>s. (score s, lookup_user (users db) (score_twitterId s))) ` set (scores db)"
  by (simp add: select_scores_users_def set_order_by_desc)

lemma sorted_select_scores_users:
  "sorted_wrt (\<lambda>a b. fst a \<ge> fst b) (select_scores_users tie db)"
  unfolding select_scores_users_def by (rule sorted_order_by_desc)

lemma select_all_some:
  "rearranges tie \<Longrightarrow> scores_have_users db \<Longrightarrow> \<forall>e \<in> set (select_scores_users tie db). snd e \<noteq> None"
  by (auto simp: set_select_scores_users scores_have_users_def list_all_iff)

lemma select_joined:
  "rearranges tie \<Longrightarrow> scores_have_users db \<Longrightarrow>
     select_scores_users tie db = map (\<lambda>e. (fst e, Some (snd e))) (joined tie db)"
  unfolding joined_def by (rule all_some_entries) (rule select_all_some)

lemma sorted_joined: "sorted_wrt (\<lambda>a b. fst a \<ge> fst b) (joined tie db)"
  unfolding joined_def by (rule sorted_with_users [OF sorted_select_scores_users])

lemma set_joined:
  "rearranges tie \<Longrightarrow> scores_have_users db \<Longrightarrow>
     (sc, u) \<in> set (joined tie db) \<longleftrightarrow>
       (\<exists>s \<in> set (scores db). score s = sc \<and> lookup_user (users db) (score_twitterId s) = Some u)"
proof -
  assume r: "rearranges tie" and h: "scores_have_users db"
  have "(sc, u) \<in> set (joined tie db) \<longleftrightarrow> (sc, Some u) \<in> set (select_scores_users tie db)"
    unfolding select_joined [OF r h] by (force simp: image_iff)
  also have "\<dots> \<longleftrightarrow> (\<exists>s \<in> set (scores db). score s = sc \<and> lookup_user (users db) (score_twitterId s) = Some u)"
    unfolding set_select_scores_users [OF r] by auto
  finally show ?thesis .
qed

lemma set_scores_by_name:
  "v \<in> set (scores_by_name n db) \<longleftrightarrow>
     (\<exists>s \<in> set (scores db). score s = v \<and>
        (\<exists>u. lookup_user (users db) (score_twitterId s) = Some u \<and> username u = n))"
  by (auto simp: scores_by_name_def split: option.splits)

lemma name_best_eqI:
  "v \<in> set (scores_by_name n db) \<Longrightarrow> (\<And>w. w \<in> set (scores_by_name n db) \<Longrightarrow> w \<le> v)
     \<Longrightarrow> name_best n db = Some v"
  unfolding name_best_def by (auto intro: Max_eqI)

lemma first_joined_best:
  assumes r: "rearranges tie" and h: "scores_have_users db"
    and x: "x \<in> set (first_by_name (\<lambda>e. username (snd e)) (joined tie db) {})"
  shows "name_best (username (snd x)) db = Some (fst x)"
proof (rule name_best_eqI)
  from x have xj: "x \<in> set (joined tie db)"
    by (rule subsetD [OF first_by_name_subset])
  then have "(fst x, snd x) \<in> set (joined tie db)" by simp
  then show "fst x \<in> set (scores_by_name (username (snd x)) db)"
    unfolding set_joined [OF r h] set_scores_by_name by blast
next
  fix w
  assume "w \<in> set (scores_by_name (username (snd x)) db)"
  then obtain s u where s: "s \<in> set (scores db)" "score s = w"
      "lookup_user (users db) (score_twitterId s) = Some u" "username u = username (snd x)"
    unfolding set_scores_by_name by blast
  then have "(w, u) \<in> set (joined tie db)"
    unfolding set_joined [OF r h] by blast
  from first_by_name_greatest [OF sorted_joined x this] s(4)
  show "w \<le> fst x" by simp
qed



lemma supabase_uniqueScores:
  assumes r: "rearranges tie" and h: "scores_have_users db"
  shows "unique_scores (select_scores_users tie db) [] {} =
           Inr (map (\<lambda>e. (username (snd e), fst e))
              (first_by_name (\<lambda>e. username (snd e)) (joined tie db) {}))"
  unfolding select_joined [OF r h] unique_scores_eq by simp

lemma example_leaderboard_sqlite:
  "get_leaderboard_sqlite (\<lambda>rows. rows) None example_db =
     Json_rows [to_leaderboard_row (bob, 60), to_leaderboard_row (alice, 50)]"
  by (simp add: get_leaderboard_sqlite_def ranked_def order_by_desc_def group_by_twitterId_def
      lookup_user_def scores_of_def example_db_def alice_def bob_def)

lemma example_leaderboard_supabase:
  "get_leaderboard_supabase (\<lambda>rows. rows) None example_db =
     Json_rows [to_leaderboard_row (bob, 60), to_leaderboard_row (alice, 50)]"
  by (simp add: get_leaderboard_supabase_def select_scores_users_def order_by_desc_def
      lookup_user_def to_leaderboard_row_def example_db_def alice_def bob_def)

lemma example_have_users: "scores_have_users example_db"
  by (simp add: scores_have_users_def lookup_user_def example_db_def alice_def bob_def)

subsection \<open>Submission without a session\<close>

text \<open>
  C7. A submission whose request carries no authenticated user is answered with status
  401 and the error \<^verbatim>\<open>Not authenticated\<close>, in each of the three servers and whatever the
  storage would do: the database is the one before (no score row, no message row) and
  nothing is emitted.
\<close>

theorem unauthenticated_submission_rejected:
  assumes "\<not> isAuthenticated req"
  shows "post_score_sqlite tie fl req db =
           \<lparr>response_of = Json_error 401 ''Not authenticated'', db_of = db, emitted = []\<rparr>
         \<and> post_score_mongo tie fl req db =
           \<lparr>response_of = Json_error 401 ''Not authenticated'', db_of = db, emitted = []\<rparr>
         \<and> post_score_supabase tie' fl req db =
           \<lparr>response_of = Json_error 401 ''Not authenticated'', db_of = db, emitted = []\<rparr>"
  using assms
  by (simp add: isAuthenticated_def post_score_sqlite_def post_score_mongo_def
      post_score_supabase_def)

theorem unauthenticated_submission_rejected_witness:
  "\<not> isAuthenticated anonymous_request
   \<and> post_score_sqlite (\<lambda>rows. rows) no_faults anonymous_request example_db =
       \<lparr>response_of = Json_error 401 ''Not authenticated'', db_of = example_db, emitted = []\<rparr>
   \<and> post_score_mongo (\<lambda>rows. rows) no_faults anonymous_request example_db =
       \<lparr>response_of = Json_error 401 ''Not authenticated'', db_of = example_db, emitted = []\<rparr>
   \<and> post_score_supabase (\<lambda>rows. rows) no_faults anonymous_request example_db =
       \<lparr>response_of = Json_error 401 ''Not authenticated'', db_of = example_db, emitted = []\<rparr>"
proof -
  have anon: "\<not> isAuthenticated anonymous_request"
    by (simp add: isAuthenticated_def anonymous_request_def)
  show ?thesis
    using anon unauthenticated_submission_rejected [OF anon, of "\<lambda>rows. rows" no_faults example_db "\<lambda>rows. rows"]
    by simp
qed

subsection \<open>Replay on connection\<close>

lemma rev_take_rev: "rev (take n (rev xs)) = drop (length xs - n) xs"
  by (simp add: take_rev)

lemma replay_rows: "rev (recent_messages db) = drop (length (messages db) - 50) (messages db)"
  by (simp add: recent_messages_def rev_take_rev)

text \<open>
  C8. What a connecting socket is sent (\<^verbatim>\<open>server.js\<close> and \<^verbatim>\<open>server_mongo.js\<close>): at most 50
  messages; they are a suffix of the log, so they stand in the order of insertion, oldest
  first, none left out between two of them and none twice; when the query succeeds they
  are the last 50 messages of the log (all of them when the log has fewer); a log of
  exactly 3 messages is sent whole.
\<close>

theorem replay_on_connection:
  "length (on_connection_sqlite err db) \<le> 50
   \<and> suffix (on_connection_sqlite err db) (messages db)
   \<and> on_connection_sqlite None db = drop (length (messages db) - 50) (messages db)
   \<and> (length (messages db) = 3 \<longrightarrow> on_connection_sqlite None db = messages db)
   \<and> length (on_connection_mongo db_connected err db) \<le> 50
   \<and> suffix (on_connection_mongo db_connected err db) (messages db)
   \<and> on_connection_mongo True None db = drop (length (messages db) - 50) (messages db)
   \<and> (length (messages db) = 3 \<longrightarrow> on_connection_mongo True None db = messages db)"
proof -
  have len: "length (rev (recent_messages db)) \<le> 50"
    by (simp add: recent_messages_def)
  have suf: "suffix (rev (recent_messages db)) (messages db)"
    by (simp add: replay_rows suffix_drop)
  have a: "length (on_connection_sqlite err db) \<le> 50"
    using len by (cases err) (simp_all add: on_connection_sqlite_def)
  have b: "suffix (on_connection_sqlite err db) (messages db)"
    using suf by (cases err) (simp_all add: on_connection_sqlite_def)
  have c: "on_connection_sqlite None db = drop (length (messages db) - 50) (messages db)"
    by (simp add: on_connection_sqlite_def replay_rows)
  have d: "length (on_connection_mongo db_connected err db) \<le> 50"
    using len by (cases err) (simp_all add: on_connection_mongo_def)
  have e: "suffix (on_connection_mongo db_connected err db) (messages db)"
    using suf by (cases err) (simp_all add: on_connection_mongo_def)
  have f: "on_connection_mongo True None db = drop (length (messages db) - 50) (messages db)"
    by (simp add: on_connection_mongo_def replay_rows)
  show ?thesis
    using a b c d e f by simp
qed

theorem replay_on_connection_witness:
  "length (messages example_db) = 3
   \<and> on_connection_sqlite None example_db = three_messages
   \<and> on_connection_mongo True None example_db = three_messages"
proof -
  have three: "length (messages example_db) = 3"
    by (simp add: example_db_def three_messages_def)
  have msgs: "messages example_db = three_messages"
    by (simp add: example_db_def)
  show ?thesis
    using three msgs replay_on_connection [of None example_db True]
    by simp
qed

subsection \<open>A failure after the score is recorded\<close>

text \<open>\<^verbatim>\<open>server.js\<close> answers success as soon as the score is inserted, whatever happens to
  the top-3 query and to the insert of the announcement.\<close>

lemma sqlite_acknowledges:
  "session_user req = Some user \<Longrightarrow> insert_score_error fl = None \<Longrightarrow>
     response_of (post_score_sqlite tie fl req db) = Json_success (Some (Suc (length (scores db))))"
  by (simp add: post_score_sqlite_def insert_score_def Let_def split: option.splits)


text \<open>
  C3. In \<^verbatim>\<open>server_mongo.js\<close> and \<^verbatim>\<open>server_supabase.js\<close> the top-3 query runs inside the
  \<^verbatim>\<open>try\<close> of the handler, before the response. When alice submits 70, the insert
  succeeds and the top-3 query fails, both answer status 500 although the score is in
  the ledger; so does \<^verbatim>\<open>server_mongo.js\<close> when the query succeeds and the insert of the
  announcement fails. \<^verbatim>\<open>server.js\<close> answers success on the same input.
\<close>

theorem mongo_recompute_failure_answers_500:
  "post_score_mongo (\<lambda>rows. rows) top3_fails alice_submits_70 example_db =
     \<lparr>response_of = Json_error 500 ''aggregate failed'',
      db_of = insert_score alice 70 example_db, emitted = []\<rparr>
   \<and> post_score_supabase (\<lambda>rows. rows) top3_fails alice_submits_70 example_db =
     \<lparr>response_of = Json_error 500 not_iterable_message,
      db_of = insert_score alice 70 example_db, emitted = []\<rparr>
   \<and> post_score_mongo (\<lambda>rows. rows) message_insert_fails alice_submits_70 example_db =
     \<lparr>response_of = Json_error 500 ''insert failed'',
      db_of = insert_score alice 70 example_db, emitted = []\<rparr>
   \<and> scores (insert_score alice 70 example_db) =
       scores example_db @ [\<lparr>score_twitterId = ''1001'', score = 70\<rparr>]
   \<and> response_of (post_score_sqlite (\<lambda>rows. rows) top3_fails alice_submits_70 example_db) =
       Json_success (Some 4)"
proof -
  have mongo_log: "post_score_mongo (\<lambda>rows. rows) message_insert_fails alice_submits_70 example_db =
     \<lparr>response_of = Json_error 500 ''insert failed'',
      db_of = insert_score alice 70 example_db, emitted = []\<rparr>"
    by (simp add: post_score_mongo_def message_insert_fails_def alice_submits_70_def
        body_score_small insert_score_def alice_def bob_def example_db_def order_by_desc_def lookup_user_def
        placement_def findIndex_def checkQuery_def ranked_def group_by_twitterId_def
        scores_of_def name_and_score_def)
  have rest: "post_score_mongo (\<lambda>rows. rows) top3_fails alice_submits_70 example_db =
     \<lparr>response_of = Json_error 500 ''aggregate failed'',
      db_of = insert_score alice 70 example_db, emitted = []\<rparr>
   \<and> post_score_supabase (\<lambda>rows. rows) top3_fails alice_submits_70 example_db =
     \<lparr>response_of = Json_error 500 not_iterable_message,
      db_of = insert_score alice 70 example_db, emitted = []\<rparr>
   \<and> scores (insert_score alice 70 example_db) =
       scores example_db @ [\<lparr>score_twitterId = ''1001'', score = 70\<rparr>]
   \<and> response_of (post_score_sqlite (\<lambda>rows. rows) top3_fails alice_submits_70 example_db) =
       Json_success (Some 4)"
    by (simp add: post_score_mongo_def post_score_supabase_def post_score_sqlite_def
        top3_fails_def alice_submits_70_def body_score_small insert_score_def alice_def
        example_db_def)
  from mongo_log rest show ?thesis by simp
qed

subsection \<open>Logging and publishing an announcement\<close>

text \<open>\<^verbatim>\<open>server_mongo.js\<close> awaits the insert of the announcement, which throws when it
  fails: what it emits is in the log.\<close>

lemma mongo_emits_only_logged:
  "m \<in> set (emitted (post_score_mongo tie fl req db)) \<Longrightarrow>
     m \<in> set (messages (db_of (post_score_mongo tie fl req db)))"
  by (auto simp: post_score_mongo_def insert_message_def Let_def split: option.splits)


text \<open>
  C5. \<^verbatim>\<open>server_supabase.js\<close> awaits the insert of the announcement but does not read its
  error, and \<^verbatim>\<open>server.js\<close> does not wait for it. When alice submits 70, a new best at
  rank 1, and the insert of the announcement fails, both emit the announcement and the
  log is left without it.
\<close>

theorem supabase_announces_unlogged:
  "emitted (post_score_supabase (\<lambda>rows. rows) message_insert_fails alice_submits_70 example_db) =
     [system_message (announcement_text ''alice'' 1 70)]
   \<and> messages (db_of (post_score_supabase (\<lambda>rows. rows) message_insert_fails alice_submits_70 example_db)) =
       three_messages
   \<and> system_message (announcement_text ''alice'' 1 70) \<notin> set three_messages
   \<and> emitted (post_score_sqlite (\<lambda>rows. rows) message_insert_fails alice_submits_70 example_db) =
     [system_message (announcement_text ''alice'' 1 70)]
   \<and> messages (db_of (post_score_sqlite (\<lambda>rows. rows) message_insert_fails alice_submits_70 example_db)) =
       three_messages"
  by (simp add: post_score_supabase_def post_score_sqlite_def message_insert_fails_def
      alice_submits_70_def body_score_small insert_score_def alice_def bob_def example_db_def
      select_scores_users_def order_by_desc_def lookup_user_def placement_def findIndex_def
      checkQuery_def ranked_def group_by_twitterId_def scores_of_def name_and_score_def
      system_message_def three_messages_def)

subsection \<open>The placement check\<close>

lemma findIndex_from_position:
  "findIndex_from P xs i = (if position P xs = 0 then - 1 else i + int (position P xs) - 1)"
  by (induction xs arbitrary: i) (auto split: nat.splits)

lemma findIndex_position: "findIndex P xs + 1 = int (position P xs)"
  by (simp add: findIndex_def findIndex_from_position)

lemma position_le_length: "position P xs \<le> length xs"
  by (induction xs) (auto split: nat.splits)

lemma position_0_iff: "position P xs = 0 \<longleftrightarrow> find P xs = None"
  by (induction xs) (auto split: nat.splits)

lemma position_map: "position P (map f xs) = position (\<lambda>x. P (f x)) xs"
  by (induction xs) (auto split: nat.splits)

lemma position_cong: "(\<And>x. x \<in> set xs \<Longrightarrow> P x = Q x) \<Longrightarrow> position P xs = position Q xs"
  by (induction xs) (auto split: nat.splits)

lemma find_map_eq: "find P (map f xs) = map_option f (find (\<lambda>x. P (f x)) xs)"
  by (induction xs) auto

lemma placement_eq:
  "placement name sc rows =
     (if position (\<lambda>r. fst r = name) rows \<in> {1, 2, 3}
         \<and> (\<exists>r. find (\<lambda>r. fst r = name) rows = Some r \<and> snd r = sc)
      then Some (announcement_text name (int (position (\<lambda>r. fst r = name) rows)) sc)
      else None)"
proof -
  let ?p = "position (\<lambda>r. fst r = name) rows"
  have "(0 < int ?p \<and> int ?p \<le> 3) \<longleftrightarrow> ?p \<in> {1, 2, 3}"
    by auto
  then show ?thesis
    unfolding placement_def Let_def findIndex_position
    by (auto split: option.splits)
qed

lemma position_take3:
  "position P (take 3 xs) \<in> {1, 2, 3} \<longleftrightarrow> find P (take 3 xs) \<noteq> None"
proof -
  have "position P (take 3 xs) \<le> 3"
    using position_le_length [of P "take 3 xs"] by simp
  then have "position P (take 3 xs) \<in> {1, 2, 3} \<longleftrightarrow> position P (take 3 xs) \<noteq> 0"
    by auto
  then show ?thesis by (simp add: position_0_iff)
qed

lemma Max_scores_of_in:
  "k \<in> score_twitterId ` set ss \<Longrightarrow> Max (set (scores_of k ss)) \<in> set (scores_of k ss)"
  by (rule Max_in) (simp_all add: scores_of_nonempty)

lemma ranked_row_best:
  assumes r: "rearranges tie"
    and found: "find (\<lambda>r. username (fst r) = name) (ranked tie db) = Some row"
  shows "name_best name db = Some (snd row)"
proof -
  from find_sorted_greatest [OF sorted_ranked found]
  have row: "row \<in> set (ranked tie db)" "username (fst row) = name"
    and top: "\<And>r'. r' \<in> set (ranked tie db) \<Longrightarrow> username (fst r') = name \<Longrightarrow> snd r' \<le> snd row"
    by auto
  obtain u m where um: "row = (u, m)" by (cases row)
  from row(1) um have look: "lookup_user (users db) (twitterId u) = Some u"
    and best: "best_score (twitterId u) db = Some m"
    using ranked_iff [OF r] by auto
  from best have k: "twitterId u \<in> score_twitterId ` set (scores db)"
    and m: "m = Max (set (scores_of (twitterId u) (scores db)))"
    by (simp_all add: best_score_Some)
  show ?thesis
  proof (rule name_best_eqI)
    from Max_scores_of_in [OF k] m have "m \<in> set (scores_of (twitterId u) (scores db))" by simp
    then obtain s where s: "s \<in> set (scores db)" "score_twitterId s = twitterId u" "score s = m"
      by (auto simp: scores_of_def)
    with look row(2) um show "snd row \<in> set (scores_by_name name db)"
      unfolding set_scores_by_name by auto
  next
    fix w assume "w \<in> set (scores_by_name name db)"
    then obtain s u' where s: "s \<in> set (scores db)" "score s = w"
        "lookup_user (users db) (score_twitterId s) = Some u'" "username u' = name"
      unfolding set_scores_by_name by blast
    from s(3) have key: "twitterId u' = score_twitterId s" by (rule lookup_user_key)
    let ?m' = "Max (set (scores_of (score_twitterId s) (scores db)))"
    have "best_score (twitterId u') db = Some ?m'"
      using s(1) key by (simp add: best_score_Some)
    with s(3) key have "(u', ?m') \<in> set (ranked tie db)"
      using ranked_iff [OF r, of u' ?m' db] by simp
    from top [OF this] s(4) have "?m' \<le> snd row" by simp
    moreover have "w \<le> ?m'"
      using s(1,2) by (intro Max_ge) (auto simp: scores_of_def)
    ultimately show "w \<le> snd row" by simp
  qed
qed

lemma checkQuery_row_best:
  assumes r: "rearranges tie"
    and found: "find (\<lambda>r. fst r = name) (checkQuery tie db) = Some row"
  shows "name_best name db = Some (snd row)"
proof -
  from found obtain row' where row': "find (\<lambda>r. username (fst r) = name) (take 3 (ranked tie db)) = Some row'"
      "row = name_and_score row'"
    unfolding checkQuery_def find_map_eq by (auto simp: name_and_score_def)
  from ranked_row_best [OF r find_take [OF row'(1)]] row'(2)
  show ?thesis by (simp add: name_and_score_def)
qed

lemma uniqueScores_row_best:
  assumes r: "rearranges tie" and h: "scores_have_users db"
    and us: "unique_scores (select_scores_users tie db) [] {} = Inr uniqueScores"
    and found: "find (\<lambda>r. fst r = name) (take 3 uniqueScores) = Some row"
  shows "name_best name db = Some (snd row)"
proof -
  from find_take [OF found] have "row \<in> set uniqueScores" "fst row = name"
    by (auto simp: find_Some_iff)
  moreover from us have "uniqueScores = map (\<lambda>e. (username (snd e), fst e))
              (first_by_name (\<lambda>e. username (snd e)) (joined tie db) {})"
    unfolding supabase_uniqueScores [OF r h] by simp
  ultimately obtain e where e: "e \<in> set (first_by_name (\<lambda>e. username (snd e)) (joined tie db) {})"
      "row = (username (snd e), fst e)"
    by auto
  from first_joined_best [OF r h e(1)] e(2) \<open>fst row = name\<close>
  show ?thesis by simp
qed

lemma unique_scores_null:
  "\<exists>e \<in> set es. snd e = None \<Longrightarrow> \<exists>msg. unique_scores es acc seen = Inl msg"
  by (induction es acc seen rule: unique_scores.induct) auto

lemma supabase_null_user:
  assumes r: "rearranges tie" and h: "\<not> scores_have_users db"
  shows "\<exists>msg. unique_scores (select_scores_users tie db) [] {} = Inl msg"
proof (rule unique_scores_null)
  from h obtain s where "s \<in> set (scores db)" "lookup_user (users db) (score_twitterId s) = None"
    by (auto simp: scores_have_users_def list_all_iff)
  then have "(score s, None) \<in> set (select_scores_users tie db)"
    unfolding set_select_scores_users [OF r] by force
  then show "\<exists>e \<in> set (select_scores_users tie db). snd e = None" by force
qed

lemma placement_best:
  assumes "\<And>r. find (\<lambda>r. fst r = name) rows = Some r \<Longrightarrow> best = Some (snd r)"
  shows "placement name sc rows =
     (if position (\<lambda>r. fst r = name) rows \<in> {1, 2, 3} \<and> best = Some sc
      then Some (announcement_text name (int (position (\<lambda>r. fst r = name) rows)) sc)
      else None)"
proof (cases "find (\<lambda>r. fst r = name) rows")
  case None
  then have "position (\<lambda>r. fst r = name) rows = 0" by (simp add: position_0_iff)
  with None show ?thesis by (simp add: placement_eq)
next
  case (Some r)
  with assms have "best = Some (snd r)" by simp
  with Some show ?thesis by (auto simp: placement_eq)
qed

lemma users_insert_score [simp]: "users (insert_score user sc db) = users db"
  by (simp add: insert_score_def)

lemma messages_insert_score [simp]: "messages (insert_score user sc db) = messages db"
  by (simp add: insert_score_def)

lemma scores_insert_score:
  "scores (insert_score user sc db) = scores db @ [\<lparr>score_twitterId = twitterId user, score = sc\<rparr>]"
  by (simp add: insert_score_def)

lemma scores_by_name_insert:
  "scores_by_name n (insert_score user sc db) =
     scores_by_name n db @
       (case lookup_user (users db) (twitterId user) of
          None \<Rightarrow> []
        | Some u \<Rightarrow> if username u = n then [sc] else [])"
  by (simp add: scores_by_name_def scores_insert_score split: option.splits)

lemma name_best_insert_ge:
  assumes "name_best n db = Some B"
  shows "\<exists>B'. name_best n (insert_score user sc db) = Some B' \<and> B \<le> B'"
proof -
  from assms have ne: "scores_by_name n db \<noteq> []" and B: "B = Max (set (scores_by_name n db))"
    by (auto simp: name_best_def split: if_splits)
  have sub: "set (scores_by_name n db) \<subseteq> set (scores_by_name n (insert_score user sc db))"
    by (simp add: scores_by_name_insert)
  with ne have ne': "scores_by_name n (insert_score user sc db) \<noteq> []" by auto
  have "Max (set (scores_by_name n db)) \<le> Max (set (scores_by_name n (insert_score user sc db)))"
    using ne sub by (intro Max_mono) auto
  with ne' B show ?thesis by (simp add: name_best_def)
qed

lemma name_best_insert_same:
  assumes "name_best n db = Some B"
  shows "name_best n (insert_score user B db) = Some B"
proof -
  from assms have ne: "scores_by_name n db \<noteq> []" and B: "B = Max (set (scores_by_name n db))"
    by (auto simp: name_best_def split: if_splits)
  have "set (scores_by_name n (insert_score user B db)) = set (scores_by_name n db)
        \<or> set (scores_by_name n (insert_score user B db)) = insert B (set (scores_by_name n db))"
    by (auto simp: scores_by_name_insert split: option.splits)
  moreover have "B \<in> set (scores_by_name n db)"
    using ne B Max_in [of "set (scores_by_name n db)"] by simp
  ultimately have "set (scores_by_name n (insert_score user B db)) = set (scores_by_name n db)"
    by auto
  with ne B show ?thesis by (auto simp: name_best_def)
qed

subsection \<open>What a submission emits\<close>

lemma sqlite_emitted:
  assumes "session_user req = Some user" "insert_score_error fl = None" "top3_error fl = None"
  shows "emitted (post_score_sqlite tie fl req db) =
           announce (placement (username user) (body_score req)
                       (checkQuery tie (insert_score user (body_score req) db)))"
  using assms by (simp add: post_score_sqlite_def announce_def Let_def split: option.splits)


lemma mongo_emitted:
  assumes "session_user req = Some user" "insert_score_error fl = None" "top3_error fl = None"
    "insert_message_error fl = None"
  shows "emitted (post_score_mongo tie fl req db) =
           announce (placement (username user) (body_score req)
                       (checkQuery tie (insert_score user (body_score req) db)))"
  using assms by (simp add: post_score_mongo_def announce_def Let_def split: option.splits)


lemma supabase_emitted:
  assumes "session_user req = Some user" "insert_score_error fl = None" "top3_error fl = None"
    "unique_scores (select_scores_users tie (insert_score user (body_score req) db)) [] {} = Inr uniqueScores"
  shows "emitted (post_score_supabase tie fl req db) =
           announce (placement (username user) (body_score req) (take 3 uniqueScores))"
  using assms by (simp add: post_score_supabase_def announce_def Let_def split: option.splits)

text \<open>Without announcement nothing is emitted and no message is logged.\<close>

lemma sqlite_silent:
  assumes "session_user req = Some user"
    and "insert_score_error fl = None \<Longrightarrow> top3_error fl = None \<Longrightarrow>
           placement (username user) (body_score req)
             (checkQuery tie (insert_score user (body_score req) db)) = None"
  shows "emitted (post_score_sqlite tie fl req db) = []
         \<and> messages (db_of (post_score_sqlite tie fl req db)) = messages db"
  using assms by (auto simp: post_score_sqlite_def Let_def split: option.splits)

lemma mongo_silent:
  assumes "session_user req = Some user"
    and "insert_score_error fl = None \<Longrightarrow> top3_error fl = None \<Longrightarrow>
           placement (username user) (body_score req)
             (checkQuery tie (insert_score user (body_score req) db)) = None"
  shows "emitted (post_score_mongo tie fl req db) = []
         \<and> messages (db_of (post_score_mongo tie fl req db)) = messages db"
  using assms by (auto simp: post_score_mongo_def Let_def split: option.splits)

lemma supabase_silent:
  assumes "session_user req = Some user"
    and "\<And>uniqueScores. insert_score_error fl = None \<Longrightarrow> top3_error fl = None \<Longrightarrow>
           unique_scores (select_scores_users tie (insert_score user (body_score req) db)) [] {}
             = Inr uniqueScores \<Longrightarrow>
           placement (username user) (body_score req) (take 3 uniqueScores) = None"
  shows "emitted (post_score_supabase tie fl req db) = []
         \<and> messages (db_of (post_score_supabase tie fl req db)) = messages db"
  using assms by (auto simp: post_score_supabase_def Let_def split: option.splits sum.splits)

lemma have_users_insert:
  "scores_have_users db \<Longrightarrow> lookup_user (users db) (twitterId user) \<noteq> None \<Longrightarrow>
     scores_have_users (insert_score user sc db)"
  by (simp add: scores_have_users_def insert_score_def)




lemma no_faults_simps:
  "insert_score_error no_faults = None" "top3_error no_faults = None"
  "insert_message_error no_faults = None"
  by (simp_all add: no_faults_def)

lemma sorted_leaderboard_rows:
  "sorted_wrt (\<lambda>a b. snd a \<ge> snd b) rows \<Longrightarrow>
     sorted_wrt (\<lambda>a b. highScore a \<ge> highScore b) (map to_leaderboard_row rows)"
  by (simp add: sorted_wrt_map to_leaderboard_row_def)

subsection \<open>The username and the identity\<close>

lemma own_scores_by_name:
  assumes c: "session_current user db" and o: "username_own user db"
  shows "scores_by_name (username user) db = scores_of (twitterId user) (scores db)"
proof -
  from c obtain u0 where u0: "lookup_user (users db) (twitterId user) = Some u0"
      "username u0 = username user"
    by (auto simp: session_current_def split: option.splits)
  have "(case lookup_user (users db) (score_twitterId s) of None \<Rightarrow> False
          | Some u \<Rightarrow> username u = username user) \<longleftrightarrow> score_twitterId s = twitterId user" for s
  proof
    assume "case lookup_user (users db) (score_twitterId s) of None \<Rightarrow> False
          | Some u \<Rightarrow> username u = username user"
    then obtain u where u: "lookup_user (users db) (score_twitterId s) = Some u"
        "username u = username user"
      by (auto split: option.splits)
    from u(1) have "u \<in> set (users db)" "twitterId u = score_twitterId s"
      by (simp_all add: lookup_user_Some)
    with o u(2) show "score_twitterId s = twitterId user"
      by (auto simp: username_own_def list_all_iff)
  next
    assume "score_twitterId s = twitterId user"
    with u0 show "case lookup_user (users db) (score_twitterId s) of None \<Rightarrow> False
          | Some u \<Rightarrow> username u = username user"
      by simp
  qed
  then have same: "filter (\<lambda>s. case lookup_user (users db) (score_twitterId s) of None \<Rightarrow> False
          | Some u \<Rightarrow> username u = username user) (scores db)
        = filter (\<lambda>s. score_twitterId s = twitterId user) (scores db)"
    by (intro filter_cong refl)
  show ?thesis
    unfolding scores_by_name_def scores_of_def same ..
qed

lemma own_name_best:
  assumes "session_current user db" and "username_own user db"
  shows "name_best (username user) db = best_score (twitterId user) db"
  by (simp add: name_best_def best_score_def own_scores_by_name [OF assms])

lemma session_current_insert [simp]:
  "session_current user (insert_score u sc db) = session_current user db"
  by (simp add: session_current_def)

lemma username_own_insert [simp]:
  "username_own user (insert_score u sc db) = username_own user db"
  by (simp add: username_own_def)

lemma own_position:
  assumes r: "rearranges tie" and c: "session_current user db" and o: "username_own user db"
  shows "position (\<lambda>r. fst r = username user) (checkQuery tie db) =
           position (\<lambda>r. twitterId (fst r) = twitterId user) (take 3 (ranked tie db))"
proof -
  from c obtain u0 where u0: "lookup_user (users db) (twitterId user) = Some u0"
      "username u0 = username user"
    by (auto simp: session_current_def split: option.splits)
  have "username (fst row) = username user \<longleftrightarrow> twitterId (fst row) = twitterId user"
    if "row \<in> set (take 3 (ranked tie db))" for row
  proof -
    from that have "row \<in> set (ranked tie db)" by (rule in_set_takeD)
    then have look: "lookup_user (users db) (twitterId (fst row)) = Some (fst row)"
      using ranked_iff [OF r, of "fst row" "snd row" db] by simp
    show ?thesis
    proof
      assume "username (fst row) = username user"
      moreover from look have "fst row \<in> set (users db)" by (simp add: lookup_user_Some)
      ultimately show "twitterId (fst row) = twitterId user"
        using o by (auto simp: username_own_def list_all_iff)
    next
      assume "twitterId (fst row) = twitterId user"
      with look u0 show "username (fst row) = username user" by simp
    qed
  qed
  then show ?thesis
    unfolding checkQuery_def position_map name_and_score_def
    by (intro position_cong) simp
qed

lemma session_best_by_name:
  assumes c: "session_current user db" and b: "best_score (twitterId user) db = Some B"
  shows "\<exists>B'. name_best (username user) db = Some B' \<and> B \<le> B'"
proof -
  from c obtain u0 where u0: "lookup_user (users db) (twitterId user) = Some u0"
      "username u0 = username user"
    by (auto simp: session_current_def split: option.splits)
  from b have ne: "scores_of (twitterId user) (scores db) \<noteq> []"
    and B: "B = Max (set (scores_of (twitterId user) (scores db)))"
    by (auto simp: best_score_def split: if_splits)
  have sub: "set (scores_of (twitterId user) (scores db)) \<subseteq> set (scores_by_name (username user) db)"
    using u0 by (auto simp: scores_of_def scores_by_name_def)
  with ne have ne': "scores_by_name (username user) db \<noteq> []" by auto
  have "Max (set (scores_of (twitterId user) (scores db))) \<le> Max (set (scores_by_name (username user) db))"
    using ne sub by (intro Max_mono) auto
  with ne' B show ?thesis by (simp add: name_best_def)
qed

lemma supabase_have_users:
  assumes r: "rearranges tie"
    and us: "unique_scores (select_scores_users tie db) [] {} = Inr uniqueScores"
  shows "scores_have_users db"
proof (rule ccontr)
  assume "\<not> scores_have_users db"
  from supabase_null_user [OF r this] us show False by auto
qed

lemma announce_checkQuery:
  assumes r: "rearranges tie"
  shows "announce (placement name sc (checkQuery tie db)) =
     (if position (\<lambda>r. fst r = name) (checkQuery tie db) \<in> {1, 2, 3} \<and> name_best name db = Some sc
      then [system_message (announcement_text name (int (position (\<lambda>r. fst r = name) (checkQuery tie db))) sc)]
      else [])"
  by (subst placement_best [where best = "name_best name db"])
     (simp_all add: checkQuery_row_best [OF r] announce_def)

lemma announce_uniqueScores:
  assumes r: "rearranges tie"
    and us: "unique_scores (select_scores_users tie db) [] {} = Inr uniqueScores"
  shows "announce (placement name sc (take 3 uniqueScores)) =
     (if position (\<lambda>r. fst r = name) (take 3 uniqueScores) \<in> {1, 2, 3} \<and> name_best name db = Some sc
      then [system_message (announcement_text name (int (position (\<lambda>r. fst r = name) (take 3 uniqueScores))) sc)]
      else [])"
  by (subst placement_best [where best = "name_best name db"])
     (simp_all add: uniqueScores_row_best [OF r supabase_have_users [OF r us] us] announce_def)


subsection \<open>One entry for each username\<close>









lemma supabase_uniqueScores_firsts:
  assumes r: "rearranges tie" and h: "scores_have_users db"
  shows "unique_scores (select_scores_users tie db) [] {} = Inr (map name_and_score (firsts tie db))"
  unfolding supabase_uniqueScores [OF r h] firsts_def name_and_score_def
  by (simp add: comp_def)



lemma firsts_row:
  assumes r: "rearranges tie" and h: "scores_have_users db"
    and x: "(u, m) \<in> set (firsts tie db)"
  shows "lookup_user (users db) (twitterId u) = Some u \<and> name_best (username u) db = Some m"
proof -
  from x have e: "(m, u) \<in> set (first_by_name (\<lambda>e. username (snd e)) (joined tie db) {})"
    by (auto simp: firsts_def)
  then have "(m, u) \<in> set (joined tie db)"
    by (rule subsetD [OF first_by_name_subset])
  then obtain s where s: "s \<in> set (scores db)"
      "lookup_user (users db) (score_twitterId s) = Some u"
    unfolding set_joined [OF r h] by blast
  from s(2) have "twitterId u = score_twitterId s" by (rule lookup_user_key)
  with s(2) have "lookup_user (users db) (twitterId u) = Some u" by simp
  with first_joined_best [OF r h e] show ?thesis by simp
qed



lemma own_position_firsts:
  assumes r: "rearranges tie" and h: "scores_have_users db"
    and c: "session_current user db" and o: "username_own user db"
  shows "position (\<lambda>r. fst r = username user) (take 3 (map name_and_score (firsts tie db))) =
           position (\<lambda>r. twitterId (fst r) = twitterId user) (take 3 (firsts tie db))"
proof -
  from c obtain u0 where u0: "lookup_user (users db) (twitterId user) = Some u0"
      "username u0 = username user"
    by (auto simp: session_current_def split: option.splits)
  have "username (fst row) = username user \<longleftrightarrow> twitterId (fst row) = twitterId user"
    if "row \<in> set (take 3 (firsts tie db))" for row
  proof -
    from that have "(fst row, snd row) \<in> set (firsts tie db)"
      by (auto dest: in_set_takeD)
    then have look: "lookup_user (users db) (twitterId (fst row)) = Some (fst row)"
      using firsts_row [OF r h] by blast
    show ?thesis
    proof
      assume "username (fst row) = username user"
      moreover from look have "fst row \<in> set (users db)" by (simp add: lookup_user_Some)
      ultimately show "twitterId (fst row) = twitterId user"
        using o by (auto simp: username_own_def list_all_iff)
    next
      assume "twitterId (fst row) = twitterId user"
      with look u0 show "username (fst row) = username user" by simp
    qed
  qed
  then show ?thesis
    unfolding take_map position_map name_and_score_def
    by (intro position_cong) simp
qed

lemma session_in_directory:
  "session_current user db \<Longrightarrow> lookup_user (users db) (twitterId user) \<noteq> None"
  by (auto simp: session_current_def split: option.splits)

subsection \<open>Instances on the example data\<close>

lemma example_session_current: "session_current alice example_db"
  by (simp add: session_current_def lookup_user_def example_db_def alice_def bob_def)

lemma example_username_own: "username_own alice example_db"
  by (simp add: username_own_def example_db_def alice_def bob_def)

lemma example_best_alice: "best_score (twitterId alice) example_db = Some 50"
  by (simp add: best_score_def scores_of_def example_db_def alice_def)


lemma example_checkQuery_50:
  "checkQuery (\<lambda>rows. rows) (insert_score alice 50 example_db) = [(''bob'', 60), (''alice'', 50)]"
  by (simp add: checkQuery_def ranked_def order_by_desc_def group_by_twitterId_def
      lookup_user_def scores_of_def name_and_score_def insert_score_def example_db_def
      alice_def bob_def)



lemma example_checkQuery_20:
  "checkQuery (\<lambda>rows. rows) (insert_score alice 20 example_db) = [(''bob'', 60), (''alice'', 50)]"
  by (simp add: checkQuery_def ranked_def order_by_desc_def group_by_twitterId_def
      lookup_user_def scores_of_def name_and_score_def insert_score_def example_db_def
      alice_def bob_def)

lemma example_uniqueScores_50:
  "unique_scores (select_scores_users (\<lambda>rows. rows) (insert_score alice 50 example_db)) [] {} =
     Inr [(''bob'', 60), (''alice'', 50)]"
  by (simp add: select_scores_users_def order_by_desc_def lookup_user_def insert_score_def
      example_db_def alice_def bob_def)










lemma example_ranked_50:
  "ranked (\<lambda>rows. rows) (insert_score alice 50 example_db) = [(bob, 60), (alice, 50)]"
  by (simp add: ranked_def order_by_desc_def group_by_twitterId_def lookup_user_def
      scores_of_def insert_score_def example_db_def alice_def bob_def)

lemma example_firsts_50:
  "firsts (\<lambda>rows. rows) (insert_score alice 50 example_db) = [(bob, 60), (alice, 50)]"
  by (simp add: firsts_def joined_def select_scores_users_def order_by_desc_def lookup_user_def
      insert_score_def example_db_def alice_def bob_def)

lemma body_large: "body_score alice_submits_large = 9007199254740996"
  by (simp add: body_score_def alice_submits_large_def to_double_large)

subsection \<open>The leaderboard\<close>




subsection \<open>When an announcement is raised\<close>




subsection \<open>A score below the best\<close>

text \<open>
  C6, as the code has it. An authenticated submission whose score, as the double it was
  parsed to, is strictly below \<open>B\<close>, where \<open>B\<close> is the best score the ledger holds under the
  username of the session, or, the session being current (the directory holds that
  username for the submitter's \<^verbatim>\<open>twitterId\<close>), the best score of the submitter's
  \<^verbatim>\<open>twitterId\<close>: none of the three servers emits anything or logs a message, whatever the
  rank of the submitter, whichever storage calls fail and whatever order the engine gives
  to equal scores.
\<close>

theorem lower_score_never_announced:
  assumes r: "rearranges tie" and r': "rearranges tie'"
    and auth: "session_user req = Some user"
    and best: "name_best (username user) db = Some B
               \<or> (session_current user db \<and> best_score (twitterId user) db = Some B)"
    and lower: "body_score req < B"
  shows
    "emitted (post_score_sqlite tie fl req db) = []
     \<and> messages (db_of (post_score_sqlite tie fl req db)) = messages db
     \<and> emitted (post_score_mongo tie fl req db) = []
     \<and> messages (db_of (post_score_mongo tie fl req db)) = messages db
     \<and> emitted (post_score_supabase tie' fl req db) = []
     \<and> messages (db_of (post_score_supabase tie' fl req db)) = messages db"
proof -
  let ?db1 = "insert_score user (body_score req) db"
  from best obtain B0 where "name_best (username user) db = Some B0" "B \<le> B0"
    using session_best_by_name by blast
  with name_best_insert_ge [of "username user" db B0 user "body_score req"]
  obtain B1 where "name_best (username user) ?db1 = Some B1" "B \<le> B1"
    by auto
  with lower have differs: "name_best (username user) ?db1 \<noteq> Some (body_score req)"
    by simp
  have "announce (placement (username user) (body_score req) (checkQuery tie ?db1)) = []"
    unfolding announce_checkQuery [OF r] using differs by simp
  then have none: "placement (username user) (body_score req) (checkQuery tie ?db1) = None"
    by (simp add: announce_def split: option.splits)
  have none': "placement (username user) (body_score req) (take 3 uniqueScores) = None"
    if "unique_scores (select_scores_users tie' ?db1) [] {} = Inr uniqueScores" for uniqueScores
  proof -
    have "announce (placement (username user) (body_score req) (take 3 uniqueScores)) = []"
      unfolding announce_uniqueScores [OF r' that] using differs by simp
    then show ?thesis by (simp add: announce_def split: option.splits)
  qed
  from sqlite_silent [OF auth none] mongo_silent [OF auth none] supabase_silent [OF auth none']
  show ?thesis by simp
qed

theorem lower_score_never_announced_witness:
  "rearranges (\<lambda>rows :: (user_row \<times> int) list. rows)
   \<and> rearranges (\<lambda>rows :: (int \<times> user_row option) list. rows)
   \<and> session_user alice_submits_20 = Some alice
   \<and> session_current alice example_db
   \<and> best_score (twitterId alice) example_db = Some 50
   \<and> body_score alice_submits_20 < 50
   \<and> checkQuery (\<lambda>rows. rows) (insert_score alice 20 example_db) = [(''bob'', 60), (''alice'', 50)]
   \<and> emitted (post_score_sqlite (\<lambda>rows. rows) no_faults alice_submits_20 example_db) = []
   \<and> emitted (post_score_mongo (\<lambda>rows. rows) no_faults alice_submits_20 example_db) = []
   \<and> emitted (post_score_supabase (\<lambda>rows. rows) no_faults alice_submits_20 example_db) = []
   \<and> messages (db_of (post_score_sqlite (\<lambda>rows. rows) no_faults alice_submits_20 example_db)) =
       three_messages"
proof -
  have auth: "session_user alice_submits_20 = Some alice"
    by (simp add: alice_submits_20_def)
  have lower: "body_score alice_submits_20 < 50"
    by (simp add: alice_submits_20_def body_score_small)
  have best: "name_best (username alice) example_db = Some 50
               \<or> (session_current alice example_db \<and> best_score (twitterId alice) example_db = Some 50)"
    using example_session_current example_best_alice by simp
  have msgs: "messages example_db = three_messages"
    by (simp add: example_db_def)
  from lower_score_never_announced
         [where tie = "\<lambda>rows. rows" and tie' = "\<lambda>rows. rows" and req = alice_submits_20
            and user = alice and fl = no_faults and db = example_db and B = 50,
          OF rearranges_id rearranges_id auth best lower]
  show ?thesis
    using auth lower example_session_current example_best_alice example_checkQuery_20 msgs
      rearranges_id [where ?'a = "user_row \<times> int"]
      rearranges_id [where ?'a = "int \<times> user_row option"]
    by simp
qed


text \<open>
  C6, as the specification states it, fails. In the first submission the user of
  \<^verbatim>\<open>twitterId\<close> 2001 has best score 100 and has changed the username from \<^verbatim>\<open>old\<close> to
  \<^verbatim>\<open>new\<close>; the session still carries \<^verbatim>\<open>old\<close>, which is now the username of another user
  with best score 20. The submission of 20 is matched with the row of that user, and the
  three servers announce rank 2 with 20 points. In the second submission the best score
  is 9007199254740996 and the body holds 9007199254740995, which is below it and which
  \<^verbatim>\<open>JSON.parse\<close> reads as the double 9007199254740996: the score equals the best and
  \<^verbatim>\<open>server.js\<close> announces it.
\<close>

theorem stale_session_lower_score_announced:
  "session_user stale_submits_20 = Some stale_session
   \<and> twitterId stale_session = ''2001''
   \<and> best_score ''2001'' renamed_db = Some 100
   \<and> body_score stale_submits_20 = 20
   \<and> emitted (post_score_sqlite (\<lambda>rows. rows) no_faults stale_submits_20 renamed_db) =
       [system_message (announcement_text ''old'' 2 20)]
   \<and> emitted (post_score_mongo (\<lambda>rows. rows) no_faults stale_submits_20 renamed_db) =
       [system_message (announcement_text ''old'' 2 20)]
   \<and> emitted (post_score_supabase (\<lambda>rows. rows) no_faults stale_submits_20 renamed_db) =
       [system_message (announcement_text ''old'' 2 20)]
   \<and> session_user alice_submits_large = Some alice
   \<and> session_current alice large_db
   \<and> best_score (twitterId alice) large_db = Some 9007199254740996
   \<and> json_score alice_submits_large = 9007199254740995
   \<and> body_score alice_submits_large = 9007199254740996
   \<and> emitted (post_score_sqlite (\<lambda>rows. rows) no_faults alice_submits_large large_db) =
       [system_message (announcement_text ''alice'' 1 9007199254740996)]"
proof -
  have stale: "session_user stale_submits_20 = Some stale_session
   \<and> twitterId stale_session = ''2001''
   \<and> best_score ''2001'' renamed_db = Some 100
   \<and> body_score stale_submits_20 = 20
   \<and> emitted (post_score_sqlite (\<lambda>rows. rows) no_faults stale_submits_20 renamed_db) =
       [system_message (announcement_text ''old'' 2 20)]
   \<and> emitted (post_score_mongo (\<lambda>rows. rows) no_faults stale_submits_20 renamed_db) =
       [system_message (announcement_text ''old'' 2 20)]
   \<and> emitted (post_score_supabase (\<lambda>rows. rows) no_faults stale_submits_20 renamed_db) =
       [system_message (announcement_text ''old'' 2 20)]"
    by (simp add: post_score_sqlite_def post_score_mongo_def post_score_supabase_def no_faults_def
        stale_submits_20_def body_score_small renamed_db_def insert_score_def best_score_def
        select_scores_users_def order_by_desc_def lookup_user_def placement_def findIndex_def
        checkQuery_def ranked_def group_by_twitterId_def scores_of_def name_and_score_def
        renamed_def successor_def stale_session_def)
  have auth: "session_user alice_submits_large = Some alice"
    and js: "json_score alice_submits_large = 9007199254740995"
    by (simp_all add: alice_submits_large_def)
  have large: "session_current alice large_db
   \<and> best_score (twitterId alice) large_db = Some 9007199254740996
   \<and> emitted (post_score_sqlite (\<lambda>rows. rows) no_faults alice_submits_large large_db) =
       [system_message (announcement_text ''alice'' 1 9007199254740996)]"
    by (simp add: post_score_sqlite_def no_faults_def auth body_large
        large_db_def insert_score_def best_score_def session_current_def
        order_by_desc_def lookup_user_def placement_def findIndex_def
        checkQuery_def ranked_def group_by_twitterId_def scores_of_def name_and_score_def
        alice_def)
  from stale auth js body_large large show ?thesis by simp
qed

subsection \<open>A score equal to the best\<close>

text \<open>
  C10, as the code has it. An authenticated submission of a score equal to \<open>B\<close>, the best
  score the ledger already holds under the username of the session (which is the best
  score of the submitter's \<^verbatim>\<open>twitterId\<close> when the session is current and no other
  \<^verbatim>\<open>twitterId\<close> carries the username), the insert and the top-3 query succeeding.
  Whenever the first row with that username is at position 1, 2 or 3 of the recomputed
  top 3, the announcement for that position and \<open>B\<close> is emitted again: by
  \<^verbatim>\<open>server.js\<close>, by \<^verbatim>\<open>server_mongo.js\<close> when the announcement can be logged, and by
  \<^verbatim>\<open>server_supabase.js\<close> on its own list \<^verbatim>\<open>uniqueScores\<close>. The check compares the
  recomputed best score with the submitted one and does not ask for an improvement. When
  the session is current and no other \<^verbatim>\<open>twitterId\<close> carries the username, \<open>B\<close> is still the
  best score of the submitter's \<^verbatim>\<open>twitterId\<close> after the insert, and the announcement is
  emitted again whenever that \<^verbatim>\<open>twitterId\<close> is at position 1, 2 or 3 of the first three
  rows of the ranking (of the list \<open>firsts\<close> for \<^verbatim>\<open>server_supabase.js\<close>, every score having
  its user).
\<close>

theorem equal_score_announced_again:
  assumes r: "rearranges tie" and r': "rearranges tie'"
    and auth: "session_user req = Some user"
    and ins: "insert_score_error fl = None" and q: "top3_error fl = None"
    and best: "name_best (username user) db = Some B
               \<or> (session_current user db \<and> username_own user db
                    \<and> best_score (twitterId user) db = Some B)"
    and equal: "body_score req = B"
    and db1: "db1 = insert_score user B db"
  shows
    "(position (\<lambda>r. fst r = username user) (checkQuery tie db1) \<in> {1, 2, 3} \<longrightarrow>
        emitted (post_score_sqlite tie fl req db) =
          [system_message (announcement_text (username user)
             (int (position (\<lambda>r. fst r = username user) (checkQuery tie db1))) B)]
        \<and> (insert_message_error fl = None \<longrightarrow>
             emitted (post_score_mongo tie fl req db) =
               [system_message (announcement_text (username user)
                  (int (position (\<lambda>r. fst r = username user) (checkQuery tie db1))) B)]))
     \<and> (\<forall>uniqueScores.
          unique_scores (select_scores_users tie' db1) [] {} = Inr uniqueScores \<longrightarrow>
          position (\<lambda>r. fst r = username user) (take 3 uniqueScores) \<in> {1, 2, 3} \<longrightarrow>
            emitted (post_score_supabase tie' fl req db) =
              [system_message (announcement_text (username user)
                 (int (position (\<lambda>r. fst r = username user) (take 3 uniqueScores))) B)])
     \<and> (session_current user db \<and> username_own user db \<longrightarrow>
          best_score (twitterId user) db1 = Some B
          \<and> position (\<lambda>r. fst r = username user) (checkQuery tie db1) =
              position (\<lambda>r. twitterId (fst r) = twitterId user) (take 3 (ranked tie db1))
          \<and> (position (\<lambda>r. twitterId (fst r) = twitterId user) (take 3 (ranked tie db1))
                \<in> {1, 2, 3} \<longrightarrow>
              emitted (post_score_sqlite tie fl req db) =
                [system_message (announcement_text (username user)
                   (int (position (\<lambda>r. twitterId (fst r) = twitterId user)
                          (take 3 (ranked tie db1)))) B)]
              \<and> (insert_message_error fl = None \<longrightarrow>
                   emitted (post_score_mongo tie fl req db) =
                     [system_message (announcement_text (username user)
                        (int (position (\<lambda>r. twitterId (fst r) = twitterId user)
                               (take 3 (ranked tie db1)))) B)]))
          \<and> (scores_have_users db \<longrightarrow>
              position (\<lambda>r. twitterId (fst r) = twitterId user) (take 3 (firsts tie' db1))
                \<in> {1, 2, 3} \<longrightarrow>
              emitted (post_score_supabase tie' fl req db) =
                [system_message (announcement_text (username user)
                   (int (position (\<lambda>r. twitterId (fst r) = twitterId user)
                          (take 3 (firsts tie' db1)))) B)]))"
proof -
  from best have nb: "name_best (username user) db = Some B"
    using own_name_best by auto
  have nb1: "name_best (username user) db1 = Some B"
    unfolding db1 by (rule name_best_insert_same [OF nb])
  have sq: "emitted (post_score_sqlite tie fl req db) =
          announce (placement (username user) B (checkQuery tie db1))"
    using sqlite_emitted [OF auth ins q, of tie db] by (simp add: equal db1)
  have mo: "insert_message_error fl = None \<Longrightarrow> emitted (post_score_mongo tie fl req db) =
          announce (placement (username user) B (checkQuery tie db1))"
    using mongo_emitted [OF auth ins q, of tie db] by (simp add: equal db1)
  have a: "position (\<lambda>r. fst r = username user) (checkQuery tie db1) \<in> {1, 2, 3} \<longrightarrow>
        emitted (post_score_sqlite tie fl req db) =
          [system_message (announcement_text (username user)
             (int (position (\<lambda>r. fst r = username user) (checkQuery tie db1))) B)]
        \<and> (insert_message_error fl = None \<longrightarrow>
             emitted (post_score_mongo tie fl req db) =
               [system_message (announcement_text (username user)
                  (int (position (\<lambda>r. fst r = username user) (checkQuery tie db1))) B)])"
    using sq mo by (simp add: announce_checkQuery [OF r] nb1)
  have b: "\<forall>uniqueScores.
          unique_scores (select_scores_users tie' db1) [] {} = Inr uniqueScores \<longrightarrow>
          position (\<lambda>r. fst r = username user) (take 3 uniqueScores) \<in> {1, 2, 3} \<longrightarrow>
            emitted (post_score_supabase tie' fl req db) =
              [system_message (announcement_text (username user)
                 (int (position (\<lambda>r. fst r = username user) (take 3 uniqueScores))) B)]"
  proof (intro allI impI)
    fix uniqueScores
    assume us: "unique_scores (select_scores_users tie' db1) [] {} = Inr uniqueScores"
      and pos: "position (\<lambda>r. fst r = username user) (take 3 uniqueScores) \<in> {1, 2, 3}"
    from us have us': "unique_scores (select_scores_users tie' (insert_score user (body_score req) db)) [] {}
        = Inr uniqueScores"
      by (simp add: equal db1)
    have "emitted (post_score_supabase tie' fl req db) =
            announce (placement (username user) B (take 3 uniqueScores))"
      using supabase_emitted [OF auth ins q us'] by (simp add: equal)
    with pos show "emitted (post_score_supabase tie' fl req db) =
              [system_message (announcement_text (username user)
                 (int (position (\<lambda>r. fst r = username user) (take 3 uniqueScores))) B)]"
      by (simp add: announce_uniqueScores [OF r' us] nb1)
  qed
  have c: "session_current user db \<and> username_own user db \<longrightarrow>
          best_score (twitterId user) db1 = Some B
          \<and> position (\<lambda>r. fst r = username user) (checkQuery tie db1) =
              position (\<lambda>r. twitterId (fst r) = twitterId user) (take 3 (ranked tie db1))
          \<and> (position (\<lambda>r. twitterId (fst r) = twitterId user) (take 3 (ranked tie db1))
                \<in> {1, 2, 3} \<longrightarrow>
              emitted (post_score_sqlite tie fl req db) =
                [system_message (announcement_text (username user)
                   (int (position (\<lambda>r. twitterId (fst r) = twitterId user)
                          (take 3 (ranked tie db1)))) B)]
              \<and> (insert_message_error fl = None \<longrightarrow>
                   emitted (post_score_mongo tie fl req db) =
                     [system_message (announcement_text (username user)
                        (int (position (\<lambda>r. twitterId (fst r) = twitterId user)
                               (take 3 (ranked tie db1)))) B)]))
          \<and> (scores_have_users db \<longrightarrow>
              position (\<lambda>r. twitterId (fst r) = twitterId user) (take 3 (firsts tie' db1))
                \<in> {1, 2, 3} \<longrightarrow>
              emitted (post_score_supabase tie' fl req db) =
                [system_message (announcement_text (username user)
                   (int (position (\<lambda>r. twitterId (fst r) = twitterId user)
                          (take 3 (firsts tie' db1)))) B)])"
  proof
    assume own0: "session_current user db \<and> username_own user db"
    then have own: "session_current user db1" "username_own user db1"
      by (simp_all add: db1)
    note pos = own_position [OF r own]
    from own_name_best [OF own] nb1 have c1: "best_score (twitterId user) db1 = Some B"
      by simp
    have c3: "position (\<lambda>r. twitterId (fst r) = twitterId user) (take 3 (ranked tie db1))
                \<in> {1, 2, 3} \<longrightarrow>
              emitted (post_score_sqlite tie fl req db) =
                [system_message (announcement_text (username user)
                   (int (position (\<lambda>r. twitterId (fst r) = twitterId user)
                          (take 3 (ranked tie db1)))) B)]
              \<and> (insert_message_error fl = None \<longrightarrow>
                   emitted (post_score_mongo tie fl req db) =
                     [system_message (announcement_text (username user)
                        (int (position (\<lambda>r. twitterId (fst r) = twitterId user)
                               (take 3 (ranked tie db1)))) B)])"
      using a unfolding pos .
    have c4: "scores_have_users db \<longrightarrow>
              position (\<lambda>r. twitterId (fst r) = twitterId user) (take 3 (firsts tie' db1))
                \<in> {1, 2, 3} \<longrightarrow>
              emitted (post_score_supabase tie' fl req db) =
                [system_message (announcement_text (username user)
                   (int (position (\<lambda>r. twitterId (fst r) = twitterId user)
                          (take 3 (firsts tie' db1)))) B)]"
    proof (intro impI)
      assume fk: "scores_have_users db"
        and p: "position (\<lambda>r. twitterId (fst r) = twitterId user) (take 3 (firsts tie' db1))
                \<in> {1, 2, 3}"
      from own0 have "lookup_user (users db) (twitterId user) \<noteq> None"
        by (simp add: session_in_directory)
      with fk have fk1: "scores_have_users db1"
        unfolding db1 by (rule have_users_insert)
      note us = supabase_uniqueScores_firsts [OF r' fk1]
      note pos' = own_position_firsts [OF r' fk1 own]
      from b us have "position (\<lambda>r. fst r = username user)
                (take 3 (map name_and_score (firsts tie' db1))) \<in> {1, 2, 3} \<longrightarrow>
              emitted (post_score_supabase tie' fl req db) =
                [system_message (announcement_text (username user)
                   (int (position (\<lambda>r. fst r = username user)
                          (take 3 (map name_and_score (firsts tie' db1))))) B)]"
        by blast
      from this [unfolded pos'] p
      show "emitted (post_score_supabase tie' fl req db) =
                [system_message (announcement_text (username user)
                   (int (position (\<lambda>r. twitterId (fst r) = twitterId user)
                          (take 3 (firsts tie' db1)))) B)]"
        by (rule mp)
    qed
    from c1 pos c3 c4 show "best_score (twitterId user) db1 = Some B
          \<and> position (\<lambda>r. fst r = username user) (checkQuery tie db1) =
              position (\<lambda>r. twitterId (fst r) = twitterId user) (take 3 (ranked tie db1))
          \<and> (position (\<lambda>r. twitterId (fst r) = twitterId user) (take 3 (ranked tie db1))
                \<in> {1, 2, 3} \<longrightarrow>
              emitted (post_score_sqlite tie fl req db) =
                [system_message (announcement_text (username user)
                   (int (position (\<lambda>r. twitterId (fst r) = twitterId user)
                          (take 3 (ranked tie db1)))) B)]
              \<and> (insert_message_error fl = None \<longrightarrow>
                   emitted (post_score_mongo tie fl req db) =
                     [system_message (announcement_text (username user)
                        (int (position (\<lambda>r. twitterId (fst r) = twitterId user)
                               (take 3 (ranked tie db1)))) B)]))
          \<and> (scores_have_users db \<longrightarrow>
              position (\<lambda>r. twitterId (fst r) = twitterId user) (take 3 (firsts tie' db1))
                \<in> {1, 2, 3} \<longrightarrow>
              emitted (post_score_supabase tie' fl req db) =
                [system_message (announcement_text (username user)
                   (int (position (\<lambda>r. twitterId (fst r) = twitterId user)
                          (take 3 (firsts tie' db1)))) B)])"
      by simp
  qed
  from a b c show ?thesis by simp
qed

theorem equal_score_announced_again_witness:
  "rearranges (\<lambda>rows :: (user_row \<times> int) list. rows)
   \<and> rearranges (\<lambda>rows :: (int \<times> user_row option) list. rows)
   \<and> session_user alice_submits_50 = Some alice
   \<and> insert_score_error no_faults = None \<and> top3_error no_faults = None
   \<and> insert_message_error no_faults = None
   \<and> session_current alice example_db \<and> username_own alice example_db
   \<and> scores_have_users example_db
   \<and> best_score (twitterId alice) example_db = Some 50
   \<and> body_score alice_submits_50 = 50
   \<and> checkQuery (\<lambda>rows. rows) (insert_score alice 50 example_db) = [(''bob'', 60), (''alice'', 50)]
   \<and> position (\<lambda>r. twitterId (fst r) = twitterId alice)
        (take 3 (ranked (\<lambda>rows. rows) (insert_score alice 50 example_db))) = 2
   \<and> position (\<lambda>r. twitterId (fst r) = twitterId alice)
        (take 3 (firsts (\<lambda>rows. rows) (insert_score alice 50 example_db))) = 2
   \<and> emitted (post_score_sqlite (\<lambda>rows. rows) no_faults alice_submits_50 example_db) =
       [system_message (announcement_text ''alice'' 2 50)]
   \<and> emitted (post_score_mongo (\<lambda>rows. rows) no_faults alice_submits_50 example_db) =
       [system_message (announcement_text ''alice'' 2 50)]
   \<and> emitted (post_score_supabase (\<lambda>rows. rows) no_faults alice_submits_50 example_db) =
       [system_message (announcement_text ''alice'' 2 50)]"
proof -
  have auth: "session_user alice_submits_50 = Some alice"
    by (simp add: alice_submits_50_def)
  have equal: "body_score alice_submits_50 = 50"
    by (simp add: alice_submits_50_def body_score_small)
  note f = no_faults_simps
  have best: "name_best (username alice) example_db = Some 50
               \<or> (session_current alice example_db \<and> username_own alice example_db
                    \<and> best_score (twitterId alice) example_db = Some 50)"
    using example_session_current example_username_own example_best_alice by simp
  have name: "username alice = ''alice''"
    by (simp add: alice_def)
  have pos: "position (\<lambda>r. twitterId (fst r) = twitterId alice)
        (take 3 (ranked (\<lambda>rows. rows) (insert_score alice 50 example_db))) = 2"
    "position (\<lambda>r. twitterId (fst r) = twitterId alice)
        (take 3 (firsts (\<lambda>rows. rows) (insert_score alice 50 example_db))) = 2"
    unfolding example_ranked_50 example_firsts_50
    by (simp_all add: alice_def bob_def)
  note again = equal_score_announced_again
         [where tie = "\<lambda>rows. rows" and tie' = "\<lambda>rows. rows" and req = alice_submits_50
            and user = alice and fl = no_faults and db = example_db and B = 50,
          OF rearranges_id rearranges_id auth f(1) f(2) best equal refl]
  from again example_session_current example_username_own example_have_users f(3) pos
  have em: "emitted (post_score_sqlite (\<lambda>rows. rows) no_faults alice_submits_50 example_db) =
       [system_message (announcement_text (username alice) (int 2) 50)]"
    "emitted (post_score_mongo (\<lambda>rows. rows) no_faults alice_submits_50 example_db) =
       [system_message (announcement_text (username alice) (int 2) 50)]"
    "emitted (post_score_supabase (\<lambda>rows. rows) no_faults alice_submits_50 example_db) =
       [system_message (announcement_text (username alice) (int 2) 50)]"
    by simp_all
  show ?thesis
    unfolding em
    using auth equal f example_session_current example_username_own example_best_alice
      example_have_users example_checkQuery_50 pos name
      rearranges_id [where ?'a = "user_row \<times> int"]
      rearranges_id [where ?'a = "int \<times> user_row option"]
    by simp
qed

text \<open>
  C10, as the specification states it, fails. The directory holds two users with the
  username \<^verbatim>\<open>bob\<close>. The second one, \<^verbatim>\<open>twitterId\<close> 1005, has best score 90 and is second
  in the top 3; it submits 90 again. The check finds the row of the other \<^verbatim>\<open>bob\<close> first,
  whose score is 100, and none of the three servers emits anything.
\<close>

theorem namesake_equal_score_not_announced:
  "session_user namesake_submits_90 = Some bob_namesake
   \<and> lookup_user (users namesake_db) (twitterId bob_namesake) = Some bob_namesake
   \<and> best_score (twitterId bob_namesake) namesake_db = Some 90
   \<and> body_score namesake_submits_90 = 90
   \<and> take 3 (ranked (\<lambda>rows. rows) (insert_score bob_namesake 90 namesake_db)) =
       [(bob, 100), (bob_namesake, 90), (carol, 80)]
   \<and> position (\<lambda>r. twitterId (fst r) = twitterId bob_namesake)
        (take 3 (ranked (\<lambda>rows. rows) (insert_score bob_namesake 90 namesake_db))) = 2
   \<and> emitted (post_score_sqlite (\<lambda>rows. rows) no_faults namesake_submits_90 namesake_db) = []
   \<and> emitted (post_score_mongo (\<lambda>rows. rows) no_faults namesake_submits_90 namesake_db) = []
   \<and> emitted (post_score_supabase (\<lambda>rows. rows) no_faults namesake_submits_90 namesake_db) = []"
  by (simp add: post_score_sqlite_def post_score_mongo_def post_score_supabase_def no_faults_def
      namesake_submits_90_def body_score_small namesake_db_def insert_score_def best_score_def
      select_scores_users_def order_by_desc_def lookup_user_def placement_def findIndex_def
      checkQuery_def ranked_def group_by_twitterId_def scores_of_def name_and_score_def
      bob_def carol_def dave_def bob_namesake_def)

subsection \<open>Schedules of connections and messages\<close>

lemma run_Nil [simp]: "run [] s = s"
  by (simp add: run_def)

lemma run_Cons [simp]: "run (e # es) s = run es (step e s)"
  by (simp add: run_def)

lemma run_append: "run (es @ es') s = run es' (run es s)"
  by (simp add: run_def)

lemma chat_log_step: "chat_log (step e s) = chat_log s @ inserted [e]"
  by (cases e) (auto split: option.splits)

lemma inserted_Cons: "inserted (e # es) = inserted [e] @ inserted es"
  by (cases e) auto

lemma chat_log_run: "chat_log (run es s) = chat_log s @ inserted es"
proof (induction es arbitrary: s)
  case Nil
  then show ?case by simp
next
  case (Cons e es)
  then show ?case
    using inserted_Cons [of e es] by (simp add: chat_log_step)
qed

lemma other_step:
  assumes "\<not> of_socket c e" and "c \<in> sockets s"
  shows "c \<in> sockets (step e s)"
    and "fetched (step e s) c = fetched s c"
    and "received (step e s) c = received s c @ emitted_live [e]"
  using assms by (cases e; auto split: option.splits)+

lemma emitted_live_Cons: "emitted_live (e # es) = emitted_live [e] @ emitted_live es"
  by (cases e) auto

lemma other_run:
  assumes "list_all (\<lambda>e. \<not> of_socket c e) es" and "c \<in> sockets s"
  shows "c \<in> sockets (run es s)
         \<and> fetched (run es s) c = fetched s c
         \<and> received (run es s) c = received s c @ emitted_live es"
  using assms
proof (induction es arbitrary: s)
  case Nil
  then show ?case by simp
next
  case (Cons e es)
  from Cons.prems have e: "\<not> of_socket c e" and es: "list_all (\<lambda>e. \<not> of_socket c e) es"
    by simp_all
  note st = other_step [OF e Cons.prems(2)]
  from Cons.IH [OF es st(1)] st(2,3) show ?case
    using emitted_live_Cons [of e es] by simp
qed

lemma replay_step:
  "fetched s c = Some rows \<Longrightarrow> received (step (Replay c) s) c = received s c @ rev rows"
  by simp


text \<open>
  C4, as the code has it. Socket \<open>c\<close> connects, the storage answers its history query
  after the events \<open>es1\<close>, and the replay runs after the events \<open>es2\<close>, where \<open>es1\<close> and
  \<open>es2\<close> are events of other sockets and of chat messages. What \<open>c\<close> has received after
  its replay is: what it had, then every message emitted during \<open>es1\<close> and \<open>es2\<close>, then
  the replay. The replay is one block: the last 50 messages of the log as it stood when
  the query was answered (all of them when there are fewer), oldest first, each once.
  The replay comes before every live message only when nothing is emitted between the
  connection and the replay.
\<close>

theorem replay_after_live_messages:
  assumes es1: "list_all (\<lambda>e. \<not> of_socket c e) es1"
    and es2: "list_all (\<lambda>e. \<not> of_socket c e) es2"
  shows "received (run (Connect c # es1 @ History_read c # es2 @ [Replay c]) s) c =
           received s c @ emitted_live es1 @ emitted_live es2
             @ drop (length (chat_log s @ inserted es1) - 50) (chat_log s @ inserted es1)"
proof -
  define s1 where "s1 = step (Connect c) s"
  define s2 where "s2 = run es1 s1"
  define s3 where "s3 = step (History_read c) s2"
  define s4 where "s4 = run es2 s3"
  have c1: "c \<in> sockets s1" "received s1 c = received s c" "chat_log s1 = chat_log s"
    by (simp_all add: s1_def)
  from other_run [OF es1 c1(1)] c1(2)
  have s2: "c \<in> sockets s2" "received s2 c = received s c @ emitted_live es1"
    by (simp_all add: s2_def)
  have log2: "chat_log s2 = chat_log s @ inserted es1"
    by (simp add: s2_def chat_log_run c1(3))
  have s3: "c \<in> sockets s3" "received s3 c = received s c @ emitted_live es1"
    "fetched s3 c = Some (take 50 (rev (chat_log s @ inserted es1)))"
    using s2 log2 by (simp_all add: s3_def)
  from other_run [OF es2 s3(1)] s3(2,3)
  have s4: "received s4 c = received s c @ emitted_live es1 @ emitted_live es2"
    "fetched s4 c = Some (take 50 (rev (chat_log s @ inserted es1)))"
    by (simp_all add: s4_def)
  have "run (Connect c # es1 @ History_read c # es2 @ [Replay c]) s = step (Replay c) s4"
    by (simp add: run_append s1_def s2_def s3_def s4_def)
  then show ?thesis
    by (simp only: replay_step [OF s4(2)] s4(1) rev_take_rev append_assoc)
qed


theorem replay_after_live_messages_witness:
  "list_all (\<lambda>e. \<not> of_socket 1 e) [Emit new_message, Insert new_message]
   \<and> list_all (\<lambda>e. \<not> of_socket 1 e) []
   \<and> received (run [Connect 1, Emit new_message, Insert new_message, History_read 1, Replay 1]
        (initial_state [old_message])) 1 = [new_message, old_message, new_message]"
proof -
  have a: "list_all (\<lambda>e. \<not> of_socket 1 e) [Emit new_message, Insert new_message]"
    by simp
  have b: "list_all (\<lambda>e. \<not> of_socket 1 e) []"
    by simp
  from replay_after_live_messages [OF a b, of "initial_state [old_message]"]
  show ?thesis
    using a by (simp add: initial_state_def)
qed

text \<open>
  C4, as the specification states it, fails. In the first schedule (the chat handler of
  \<^verbatim>\<open>server_supabase.js\<close> waits for its insert while socket 1 connects and its history
  query is answered) the new message reaches socket 1 live while its replay is still
  pending, and the replay then delivers it a second time. In the second schedule (the
  chat handler of \<^verbatim>\<open>server.js\<close> emits at once) the live message reaches socket 1 ahead of
  the replay of an older one.
\<close>

theorem live_message_before_replay:
  "received (run [Insert new_message, Connect 1, History_read 1, Emit new_message]
      (initial_state [old_message])) 1 = [new_message]
   \<and> fetched (run [Insert new_message, Connect 1, History_read 1, Emit new_message]
      (initial_state [old_message])) 1 = Some [new_message, old_message]
   \<and> received (run [Insert new_message, Connect 1, History_read 1, Emit new_message, Replay 1]
      (initial_state [old_message])) 1 = [new_message, old_message, new_message]
   \<and> received (run [Connect 1, History_read 1, Emit new_message, Insert new_message, Replay 1]
      (initial_state [old_message])) 1 = [new_message, old_message]"
  by (simp add: initial_state_def)


subsection \<open>The three servers compared\<close>












end
